theory Spec2Isabelle
  imports Main
begin

section \<open>Access control evaluator (src/tools/types.ts)\<close>

text \<open>
  \<^verbatim>\<open>export type ToolPrivilegeLevel = 'regular' | 'privileged';\<close>
\<close>

datatype ToolPrivilegeLevel = Regular | Privileged

fun levelName :: "ToolPrivilegeLevel \<Rightarrow> string" where
  "levelName Regular = ''regular''"
| "levelName Privileged = ''privileged''"

text \<open>
  \<^verbatim>\<open>interface UserContext { userId: string; email: string | null; role: string; }\<close>
\<close>

record UserContext =
  userId :: string
  email :: "string option"
  role :: string

text \<open>
  The policy table is an object literal with three own properties; every other key
  (also the names inherited from the prototype) is not an own property.
\<close>

definition ROLE_PRIVILEGE_MAP :: "string \<rightharpoonup> ToolPrivilegeLevel set" where
  "ROLE_PRIVILEGE_MAP =
     [''service_role'' \<mapsto> {Regular, Privileged},
      ''authenticated'' \<mapsto> {Regular},
      ''anon'' \<mapsto> {}]"

text \<open>
  \<^verbatim>\<open>
  const allowedLevels = Object.hasOwn(ROLE_PRIVILEGE_MAP, userRole)
      ? ROLE_PRIVILEGE_MAP[userRole]
      : ROLE_PRIVILEGE_MAP.authenticated;
  return allowedLevels.has(toolPrivilegeLevel);
  \<close>
\<close>

definition canAccessTool :: "string \<Rightarrow> ToolPrivilegeLevel \<Rightarrow> bool" where
  "canAccessTool userRole toolPrivilegeLevel =
     (let allowedLevels =
        (case ROLE_PRIVILEGE_MAP userRole of
           Some levels \<Rightarrow> levels
         | None \<Rightarrow> the (ROLE_PRIVILEGE_MAP ''authenticated''))
      in toolPrivilegeLevel \<in> allowedLevels)"

section \<open>Effects\<close>

text \<open>
  What the code does beyond returning a value is recorded as a list of effects, in the
  order in which they happen. \<open>PgCall\<close> and \<open>ServiceRoleRpcCall\<close> stand for the two
  execution primitives of the client (the only places of the fallback chain that talk
  to a backend); \<open>ToolExecute\<close> marks the call of a tool's \<open>execute\<close> function.
  A thrown JavaScript value is a ZodError with its issues, an Error with its message,
  or any other value with its \<open>String(...)\<close> rendering.
\<close>

datatype ZodIssue = ZodIssue (issue_path: "string list") (issue_message: string)

datatype thrown = ZodError "ZodIssue list" | Error string | NonError string

datatype effect =
    ConsoleInfo string
  | ConsoleError string
  | ConsoleErrorWith string thrown
  | PgCall string
  | ServiceRoleRpcCall string bool
  | ToolExecute string

fun isBackendCall :: "effect \<Rightarrow> bool" where
  "isBackendCall (PgCall _) = True"
| "isBackendCall (ServiceRoleRpcCall _ _) = True"
| "isBackendCall _ = False"

fun isServiceRoleRpcCall :: "effect \<Rightarrow> bool" where
  "isServiceRoleRpcCall (ServiceRoleRpcCall _ _) = True"
| "isServiceRoleRpcCall _ = False"

fun isToolExecute :: "effect \<Rightarrow> bool" where
  "isToolExecute (ToolExecute _) = True"
| "isToolExecute _ = False"

section \<open>JavaScript values and their texts\<close>

text \<open>
  A value as it occurs in the arguments of a call and in the columns of a row:
  undefined, null, a string, a boolean or a number (an integer here; values of other
  kinds are not represented). \<open>typeName\<close> is the name Zod gives to the type of a
  value it rejects.
\<close>

datatype raw_value = Undefined | RawNull | RawString string | RawBoolean bool | RawNumber int

fun typeName :: "raw_value \<Rightarrow> string" where
  "typeName Undefined = ''undefined''"
| "typeName RawNull = ''null''"
| "typeName (RawString _) = ''string''"
| "typeName (RawBoolean _) = ''boolean''"
| "typeName (RawNumber _) = ''number''"

text \<open>\<open>String(n)\<close> of an integer, as a template literal renders it.\<close>

fun decimal :: "nat \<Rightarrow> string" where
  "decimal n =
     (if n < 10 then [char_of (48 + n)]
      else decimal (n div 10) @ [char_of (48 + n mod 10)])"

declare decimal.simps [simp del]

definition decimalInt :: "int \<Rightarrow> string" where
  "decimalInt i = (if i < 0 then ''-'' @ decimal (nat (- i)) else decimal (nat i))"

text \<open>\<open>Array.prototype.join\<close> on an array of strings.\<close>

fun join :: "string \<Rightarrow> string list \<Rightarrow> string" where
  "join sep [] = []"
| "join sep [x] = x"
| "join sep (x # y # ys) = x @ sep @ join sep (y # ys)"

text \<open>
  A row of a result is an object: its columns in their order, each with its value.
  \<open>rowsJson\<close> is \<open>JSON.stringify(rows, null, 2)\<close> of an array of rows: a string is
  quoted with the quote, the backslash and the control characters escaped, a column
  whose value is undefined is left out, an object without columns is \<open>{}\<close>, the empty
  array is \<open>[]\<close>, and each level is indented by two spaces.
\<close>

type_synonym row = "(string \<times> raw_value) list"

definition hexDigit :: "nat \<Rightarrow> char" where
  "hexDigit n = (if n < 10 then char_of (48 + n) else char_of (87 + n))"

definition jsonEscape :: "char \<Rightarrow> string" where
  "jsonEscape c =
     (if c = CHR 0x22 then [CHR 0x5C, CHR 0x22]
      else if c = CHR 0x5C then [CHR 0x5C, CHR 0x5C]
      else if c = CHR 0x08 then [CHR 0x5C, CHR ''b'']
      else if c = CHR 0x0C then [CHR 0x5C, CHR ''f'']
      else if c = CHR 0x0A then [CHR 0x5C, CHR ''n'']
      else if c = CHR 0x0D then [CHR 0x5C, CHR ''r'']
      else if c = CHR 0x09 then [CHR 0x5C, CHR ''t'']
      else if (of_char c :: nat) < 32 then
        [CHR 0x5C, CHR ''u'', CHR ''0'', CHR ''0'',
         hexDigit ((of_char c :: nat) div 16), hexDigit ((of_char c :: nat) mod 16)]
      else [c])"

definition jsonQuote :: "string \<Rightarrow> string" where
  "jsonQuote s = [CHR 0x22] @ concat (map jsonEscape s) @ [CHR 0x22]"

fun jsonValue :: "raw_value \<Rightarrow> string" where
  "jsonValue Undefined = []"
| "jsonValue RawNull = ''null''"
| "jsonValue (RawString s) = jsonQuote s"
| "jsonValue (RawBoolean b) = (if b then ''true'' else ''false'')"
| "jsonValue (RawNumber n) = decimalInt n"

definition rowJson :: "row \<Rightarrow> string" where
  "rowJson r =
     (let members = map (\<lambda>(k, v). jsonQuote k @ '': '' @ jsonValue v)
                      (filter (\<lambda>(k, v). v \<noteq> Undefined) r)
      in if members = [] then ''{}''
         else ''{'' @ [CHR 0x0A] @ ''    '' @ join ('','' @ [CHR 0x0A] @ ''    '') members @
              [CHR 0x0A] @ ''  }'')"

definition rowsJson :: "row list \<Rightarrow> string" where
  "rowsJson rows =
     (if rows = [] then ''[]''
      else ''['' @ [CHR 0x0A] @ ''  '' @ join ('','' @ [CHR 0x0A] @ ''  '') (map rowJson rows) @
           [CHR 0x0A] @ '']'')"

section \<open>Execution fallback chain (src/tools/utils.ts)\<close>

text \<open>
  A result of a statement is the array of its rows or an error object with a message
  and a code. The chain passes the rows through untouched.
\<close>

datatype SqlExecutionResult =
    SqlSuccessResponse "row list"
  | SqlErrorResponse (error_message: string) (error_code: string)

text \<open>
  The client, as far as the chain uses it: the two capability predicates and the two
  execution primitives. A primitive answers with a result, or its promise rejects with
  a thrown value (\<open>Inl\<close>).
\<close>

record SelfhostedSupabaseClient =
  isPgAvailable :: bool
  isServiceRoleAvailable :: bool
  executeSqlWithPg :: "string \<Rightarrow> thrown + SqlExecutionResult"
  executeSqlViaServiceRoleRpc :: "string \<Rightarrow> bool \<Rightarrow> thrown + SqlExecutionResult"

definition CONFIG_ERROR_MESSAGE :: string where
  "CONFIG_ERROR_MESSAGE =
     ''Neither direct database connection (DATABASE_URL) nor service role key (SUPABASE_SERVICE_ROLE_KEY) is configured. Cannot execute SQL.''"

text \<open>
  \<^verbatim>\<open>
  export async function executeSqlWithFallback(client, sql, readOnly: boolean = true) {
      if (client.isPgAvailable()) {
          console.info('Using direct database connection (bypassing JWT)...');
          return await client.executeSqlWithPg(sql);
      }
      if (client.isServiceRoleAvailable()) {
          console.info('Using service role RPC method...');
          return await client.executeSqlViaServiceRoleRpc(sql, readOnly);
      }
      return { error: { message: '...', code: 'MCP_CONFIG_ERROR' } };
  }
  \<close>
  The third argument is optional in the source and defaults to true.
\<close>

definition executeSqlWithFallback ::
  "SelfhostedSupabaseClient \<Rightarrow> string \<Rightarrow> bool option
     \<Rightarrow> (thrown + SqlExecutionResult) \<times> effect list" where
  "executeSqlWithFallback client sql readOnlyArg =
     (let readOnly = (case readOnlyArg of None \<Rightarrow> True | Some b \<Rightarrow> b) in
      if isPgAvailable client then
        (executeSqlWithPg client sql,
         [ConsoleInfo ''Using direct database connection (bypassing JWT)...'', PgCall sql])
      else if isServiceRoleAvailable client then
        (executeSqlViaServiceRoleRpc client sql readOnly,
         [ConsoleInfo ''Using service role RPC method...'', ServiceRoleRpcCall sql readOnly])
      else
        (Inr (SqlErrorResponse CONFIG_ERROR_MESSAGE ''MCP_CONFIG_ERROR''), []))"

section \<open>Tool catalog and dispatcher (src/index.ts)\<close>

text \<open>
  \<^verbatim>\<open>
  interface AppTool {
      name: string; description: string;
      inputSchema: z.ZodTypeAny; mcpInputSchema: object; outputSchema: z.ZodTypeAny;
      privilegeLevel?: ToolPrivilegeLevel;
      execute: (input: unknown, context: ToolContext) => Promise<unknown>;
  }
  \<close>
  The input schema is kept as its \<open>parse\<close> function: it returns the parsed arguments
  or throws a ZodError, which carries the list of all its issues. The value a tool
  returns is a string, or another value kept with its \<open>JSON.stringify(_, null, 2)\<close>
  text. \<open>execute\<close> gets the parsed arguments and the context; it can throw, and the
  effects it performs (its backend calls, its log lines) come with its answer. The field
  \<open>execute\<close> is required by the interface, so the guard
  \<^verbatim>\<open>typeof tool.execute !== 'function'\<close> of the handler never fires on an AppTool.
  The fields that the handler of a call does not read (\<open>mcpInputSchema\<close>,
  \<open>outputSchema\<close>) are left out.
\<close>

datatype tool_value = StringValue string | JsonValue string

fun resultText :: "tool_value \<Rightarrow> string" where
  "resultText (StringValue s) = s"
| "resultText (JsonValue s) = s"

record ToolContext =
  selfhostedClient :: SelfhostedSupabaseClient
  workspacePath :: string
  user :: "UserContext option"

record ('a, 'p) AppTool =
  name :: string
  description :: string
  inputSchema :: "'a \<Rightarrow> ZodIssue list + 'p"
  privilegeLevel :: "ToolPrivilegeLevel option"
  execute :: "'p \<Rightarrow> ToolContext \<Rightarrow> (thrown + tool_value) \<times> effect list"

text \<open>
  Tool filtering. \<open>enabledToolNames\<close> is null when there is no valid whitelist;
  otherwise the registered tools are the available tools whose name is in the set.
  \<^verbatim>\<open>
  let registeredTools = { ...availableTools };
  if (enabledToolNames !== null) {
      registeredTools = {};
      for (const toolName in availableTools)
          if (enabledToolNames.has(toolName)) registeredTools[toolName] = availableTools[toolName];
  }
  \<close>
\<close>

definition filterTools :: "(string \<rightharpoonup> 't) \<Rightarrow> string set option \<Rightarrow> (string \<rightharpoonup> 't)" where
  "filterTools availableTools enabledToolNames =
     (case enabledToolNames of
        None \<Rightarrow> availableTools
      | Some names \<Rightarrow> (\<lambda>toolName. if toolName \<in> names then availableTools toolName else None))"

text \<open>
  \<^verbatim>\<open>`${e.path.join('.')}: ${e.message}`\<close>; an element of a path is a key or an index,
  kept as the text that \<open>join\<close> renders.
\<close>

definition formatIssue :: "ZodIssue \<Rightarrow> string" where
  "formatIssue e = join ''.'' (issue_path e) @ '': '' @ issue_message e"

text \<open>
  What the handler of a call gives back: it throws an McpError (a protocol error), or
  it returns a content text with the in-band error flag.
\<close>

datatype ErrorCode = MethodNotFound | InvalidRequest

datatype call_result =
    McpError ErrorCode string
  | CallToolResult (content_text: string) (isError: bool)

text \<open>\<^verbatim>\<open>userContext.email || userContext.userId\<close>: null and the empty string are falsy.\<close>

definition emailOrUserId :: "UserContext \<Rightarrow> string" where
  "emailOrUserId u =
     (case email u of
        None \<Rightarrow> userId u
      | Some e \<Rightarrow> if e = [] then userId u else e)"

text \<open>
  The catch clause of the handler:
  \<^verbatim>\<open>
  console.error(`Error executing tool ${toolName}:`, error);
  let errorMessage = `Error executing tool ${toolName}: `;
  if (error instanceof z.ZodError) {
      errorMessage += `Input validation failed: ${error.issues.map((e) =>
          `${e.path.join('.')}: ${e.message}`).join(', ')}`;
  } else if (error instanceof Error) { errorMessage += error.message; }
  else { errorMessage += String(error); }
  return { content: [{ type: 'text', text: errorMessage }], isError: true };
  \<close>
\<close>

fun errorMessageOf :: "string \<Rightarrow> thrown \<Rightarrow> string" where
  "errorMessageOf toolName (ZodError issues) =
     ''Error executing tool '' @ toolName @ '': '' @
     ''Input validation failed: '' @ join '', '' (map formatIssue issues)"
| "errorMessageOf toolName (Error msg) = ''Error executing tool '' @ toolName @ '': '' @ msg"
| "errorMessageOf toolName (NonError txt) = ''Error executing tool '' @ toolName @ '': '' @ txt"

definition catchToolError :: "string \<Rightarrow> thrown \<Rightarrow> call_result \<times> effect list" where
  "catchToolError toolName err =
     (CallToolResult (errorMessageOf toolName err) True,
      [ConsoleErrorWith (''Error executing tool '' @ toolName @ '':'') err])"

text \<open>
  The try block of the handler: parse the arguments, build the context, call
  \<open>execute\<close>, wrap the result. Whatever is thrown inside goes to the catch clause.
  \<^verbatim>\<open>
  const parsedArgs = tool.inputSchema.parse(request.params.arguments);
  const context = { selfhostedClient, workspacePath, user: userContext, log };
  const result = await tool.execute(parsedArgs, context);
  return { content: [{ type: 'text',
      text: typeof result === 'string' ? result : JSON.stringify(result, null, 2) }] };
  \<close>
\<close>

definition tryExecuteTool ::
  "SelfhostedSupabaseClient \<Rightarrow> string \<Rightarrow> UserContext option \<Rightarrow> ('a, 'p) AppTool
     \<Rightarrow> string \<Rightarrow> 'a \<Rightarrow> call_result \<times> effect list" where
  "tryExecuteTool client wsPath userContext tool toolName arguments =
     (case inputSchema tool arguments of
        Inl issues \<Rightarrow> catchToolError toolName (ZodError issues)
      | Inr parsedArgs \<Rightarrow>
          (let context = \<lparr>selfhostedClient = client, workspacePath = wsPath, user = userContext\<rparr>
           in case execute tool parsedArgs context of
                (Inl err, effects) \<Rightarrow>
                  (fst (catchToolError toolName err),
                   ToolExecute toolName # effects @ snd (catchToolError toolName err))
              | (Inr result, effects) \<Rightarrow>
                  (CallToolResult (resultText result) False, ToolExecute toolName # effects)))"

text \<open>
  The handler of CallToolRequest, with the closure variables \<open>registeredTools\<close>,
  \<open>availableTools\<close>, \<open>selfhostedClient\<close>, the workspace path and \<open>userContext\<close> as
  arguments. \<open>userContext\<close> is undefined in stdio mode.
  \<^verbatim>\<open>
  if (!Object.hasOwn(registeredTools, toolName)) {
      if (Object.hasOwn(availableTools, toolName))
          throw new McpError(ErrorCode.MethodNotFound,
              `Tool "${toolName}" is available but not enabled by the current server configuration.`);
      throw new McpError(ErrorCode.MethodNotFound, `Unknown tool: ${toolName}`);
  }
  const tool = registeredTools[toolName];
  if (userContext) {
      const toolPrivilegeLevel = tool.privilegeLevel ?? 'regular';
      if (!canAccessTool(userContext.role, toolPrivilegeLevel)) {
          console.error(`[SECURITY] Access denied: User ${userContext.email || userContext.userId}
              (role: ${userContext.role}) attempted to access ${toolName} (requires: ${toolPrivilegeLevel})`);
          throw new McpError(ErrorCode.InvalidRequest,
              `Access denied: Tool '${toolName}' requires '${toolPrivilegeLevel}' privilege. ` +
              `Your role '${userContext.role}' does not have sufficient permissions.`);
      }
  }
  try { ... } catch (error) { ... }
  \<close>
\<close>

definition disabledMessage :: "string \<Rightarrow> string" where
  "disabledMessage toolName =
     ''Tool '' @ [CHR 0x22] @ toolName @ [CHR 0x22] @
     '' is available but not enabled by the current server configuration.''"

definition unknownMessage :: "string \<Rightarrow> string" where
  "unknownMessage toolName = ''Unknown tool: '' @ toolName"

definition securityLogLine :: "UserContext \<Rightarrow> string \<Rightarrow> ToolPrivilegeLevel \<Rightarrow> string" where
  "securityLogLine u toolName lvl =
     ''[SECURITY] Access denied: User '' @ emailOrUserId u @ '' (role: '' @ role u @
     '') attempted to access '' @ toolName @ '' (requires: '' @ levelName lvl @ '')''"

definition accessDeniedMessage :: "string \<Rightarrow> ToolPrivilegeLevel \<Rightarrow> string \<Rightarrow> string" where
  "accessDeniedMessage toolName lvl userRole =
     ''Access denied: Tool '' @ [CHR 0x27] @ toolName @ [CHR 0x27] @ '' requires '' @
     [CHR 0x27] @ levelName lvl @ [CHR 0x27] @ '' privilege. '' @
     ''Your role '' @ [CHR 0x27] @ userRole @ [CHR 0x27] @
     '' does not have sufficient permissions.''"

definition callTool ::
  "(string \<rightharpoonup> ('a, 'p) AppTool) \<Rightarrow> (string \<rightharpoonup> ('a, 'p) AppTool)
     \<Rightarrow> SelfhostedSupabaseClient \<Rightarrow> string \<Rightarrow> UserContext option
     \<Rightarrow> string \<Rightarrow> 'a \<Rightarrow> call_result \<times> effect list" where
  "callTool registeredTools availableTools client wsPath userContext toolName arguments =
     (case registeredTools toolName of
        None \<Rightarrow>
          (if availableTools toolName \<noteq> None
           then (McpError MethodNotFound (disabledMessage toolName), [])
           else (McpError MethodNotFound (unknownMessage toolName), []))
      | Some tool \<Rightarrow>
          (case userContext of
             Some u \<Rightarrow>
               (let toolPrivilegeLevel =
                      (case privilegeLevel tool of None \<Rightarrow> Regular | Some lvl \<Rightarrow> lvl)
                in if \<not> canAccessTool (role u) toolPrivilegeLevel
                   then (McpError InvalidRequest
                           (accessDeniedMessage toolName toolPrivilegeLevel (role u)),
                         [ConsoleError (securityLogLine u toolName toolPrivilegeLevel)])
                   else tryExecuteTool client wsPath userContext tool toolName arguments)
           | None \<Rightarrow> tryExecuteTool client wsPath userContext tool toolName arguments))"

text \<open>
  The authorize step on its own: it lets a call pass when there is no identity, or when
  the role of the identity may access the privilege level of the tool, an omitted level
  counting as regular.
\<close>

definition authorizePasses :: "UserContext option \<Rightarrow> ('a, 'p) AppTool \<Rightarrow> bool" where
  "authorizePasses userContext tool =
     (case userContext of
        None \<Rightarrow> True
      | Some u \<Rightarrow>
          canAccessTool (role u) (case privilegeLevel tool of None \<Rightarrow> Regular | Some lvl \<Rightarrow> lvl))"

section \<open>The execute_sql tool (src/tools/execute_sql.ts)\<close>

text \<open>
  The raw arguments of a call of execute_sql, as far as its schema reads them, and the
  parsed input.
  \<^verbatim>\<open>
  const ExecuteSqlInputSchema = z.object({
      sql: z.string(),
      read_only: z.boolean().optional().default(false),
  });
  \<close>
  Zod reports every field that fails, each issue with the path of the field. The texts
  of the messages are the library's own and stand here in the form
  \<open>Required\<close> / \<open>Expected T, received U\<close>.
\<close>

record ExecuteSqlArguments =
  arg_sql :: raw_value
  arg_read_only :: raw_value

record ExecuteSqlInput =
  input_sql :: string
  input_read_only :: bool

definition invalidType :: "string \<Rightarrow> string \<Rightarrow> raw_value \<Rightarrow> ZodIssue" where
  "invalidType field expected v =
     ZodIssue [field]
       (if v = Undefined then ''Required''
        else ''Expected '' @ expected @ '', received '' @ typeName v)"

definition ExecuteSqlInputSchema :: "ExecuteSqlArguments \<Rightarrow> ZodIssue list + ExecuteSqlInput" where
  "ExecuteSqlInputSchema a =
     (let sqlIssues = (case arg_sql a of RawString _ \<Rightarrow> []
                       | v \<Rightarrow> [invalidType ''sql'' ''string'' v]);
          roIssues = (case arg_read_only a of RawBoolean _ \<Rightarrow> [] | Undefined \<Rightarrow> []
                      | v \<Rightarrow> [invalidType ''read_only'' ''boolean'' v])
      in if sqlIssues @ roIssues \<noteq> [] then Inl (sqlIssues @ roIssues)
         else Inr \<lparr>input_sql = (case arg_sql a of RawString q \<Rightarrow> q | _ \<Rightarrow> []),
                   input_read_only = (case arg_read_only a of RawBoolean b \<Rightarrow> b | _ \<Rightarrow> False)\<rparr>)"

text \<open>
  \<^verbatim>\<open>
  export function handleSqlResponse<T>(result, schema) {
      if ('error' in result)
          throw new Error(`SQL Error (${result.error.code}): ${result.error.message}`);
      try { return schema.parse(result); }
      catch (validationError) {
          if (validationError instanceof z.ZodError)
              throw new Error(`Schema validation failed: ${validationError.issues.map((e) =>
                  `${e.path.join('.')}: ${e.message}`).join(', ')}`);
          throw new Error(`Unexpected validation error: ${validationError}`);
      }
  }
  \<close>
  An output schema is kept as its \<open>parse\<close> on the rows, which throws nothing but
  a ZodError. The output schema of execute_sql is \<open>z.array(z.unknown())\<close>, which
  accepts every array of rows.
\<close>

definition handleSqlResponse ::
  "SqlExecutionResult \<Rightarrow> (row list \<Rightarrow> ZodIssue list + row list) \<Rightarrow> thrown + row list" where
  "handleSqlResponse result schema =
     (case result of
        SqlErrorResponse msg code \<Rightarrow> Inl (Error (''SQL Error ('' @ code @ ''): '' @ msg))
      | SqlSuccessResponse rows \<Rightarrow>
          (case schema rows of
             Inl issues \<Rightarrow>
               Inl (Error (''Schema validation failed: '' @ join '', '' (map formatIssue issues)))
           | Inr parsed \<Rightarrow> Inr parsed))"

definition ExecuteSqlOutputSchema :: "row list \<Rightarrow> ZodIssue list + row list" where
  "ExecuteSqlOutputSchema rows = Inr rows"

definition boolText :: "bool \<Rightarrow> string" where
  "boolText b = (if b then ''true'' else ''false'')"

text \<open>
  \<^verbatim>\<open>
  execute: async (input, context) => {
      const client = context.selfhostedClient;
      if (!client.isPgAvailable() && !client.isServiceRoleAvailable())
          throw new Error('execute_sql requires either ...');
      const userInfo = context.user
          ? `user=${context.user.email || context.user.userId} role=${context.user.role}`
          : 'user=unknown (stdio mode)';
      const queryPreview = input.sql.length > 200
          ? `${input.sql.substring(0, 200)}... [truncated, ${input.sql.length} chars total]`
          : input.sql;
      console.error(`[AUDIT] SQL execution by ${userInfo}: ${queryPreview}`);
      context.log(`Executing SQL (readOnly: ${input.read_only})`, 'info');
      const result = await executeSqlWithFallback(client, input.sql, input.read_only);
      return handleSqlResponse(result, ExecuteSqlOutputSchema);
  }
  \<close>
  \<open>context.log\<close> is the dispatcher's logger, which writes
  \<^verbatim>\<open>console.error(`[${level.toUpperCase()}] ${message}`)\<close>.
\<close>

definition executeSql_execute ::
  "ExecuteSqlInput \<Rightarrow> ToolContext \<Rightarrow> (thrown + tool_value) \<times> effect list" where
  "executeSql_execute input context =
     (let client = selfhostedClient context in
      if \<not> isPgAvailable client \<and> \<not> isServiceRoleAvailable client then
        (Inl (Error (''execute_sql requires either a direct database connection (DATABASE_URL) '' @
                     ''or a service role key (SUPABASE_SERVICE_ROLE_KEY) to be configured. '' @
                     ''This tool cannot be used with only the anon key for security reasons.'')),
         [])
      else
        (let userInfo =
               (case user context of
                  Some u \<Rightarrow> ''user='' @ emailOrUserId u @ '' role='' @ role u
                | None \<Rightarrow> ''user=unknown (stdio mode)'');
             q = input_sql input;
             queryPreview =
               (if length q > 200
                then take 200 q @ ''... [truncated, '' @ decimal (length q) @ '' chars total]''
                else q);
             logs =
               [ConsoleError (''[AUDIT] SQL execution by '' @ userInfo @ '': '' @ queryPreview),
                ConsoleError (''[INFO] Executing SQL (readOnly: '' @
                              boolText (input_read_only input) @ '')'')];
             (result, effects) = executeSqlWithFallback client q (Some (input_read_only input))
         in case result of
              Inl err \<Rightarrow> (Inl err, logs @ effects)
            | Inr r \<Rightarrow>
                (case handleSqlResponse r ExecuteSqlOutputSchema of
                   Inl err \<Rightarrow> (Inl err, logs @ effects)
                 | Inr rows \<Rightarrow> (Inr (JsonValue (rowsJson rows)), logs @ effects))))"

definition executeSqlTool :: "(ExecuteSqlArguments, ExecuteSqlInput) AppTool" where
  "executeSqlTool =
     \<lparr>name = ''execute_sql'',
      description = ''Executes an arbitrary SQL query against the database. SECURITY: Requires service_role key or direct database connection.'',
      inputSchema = ExecuteSqlInputSchema,
      privilegeLevel = Some Privileged,
      execute = executeSql_execute\<rparr>"

section \<open>The list_vector_indexes tool (listVectorIndexesTool)\<close>

text \<open>
  A tool whose descriptor has no \<open>privilegeLevel\<close> field.
  \<^verbatim>\<open>
  const VectorIndexSchema = z.object({ index_name: z.string(), table_name: z.string(),
      schema_name: z.string(), index_method: z.string(), index_definition: z.string() });
  const ListVectorIndexesOutputSchema = z.array(VectorIndexSchema);
  const ListVectorIndexesInputSchema = z.object({});
  \<close>
  The arguments of a call are an object or absent (\<open>None\<close>). The input schema
  rejects absent arguments and reads no field of an object. The output schema checks,
  row by row and field by field, that each of the five fields is a string, collects an
  issue with the path (index of the row, name of the field) for each one that is not,
  and keeps of an accepted row the five fields only. The texts of the messages are the
  library's own, in the form \<open>Required\<close> / \<open>Expected T, received U\<close>.
\<close>

definition ListVectorIndexesInputSchema :: "row option \<Rightarrow> ZodIssue list + unit" where
  "ListVectorIndexesInputSchema a =
     (case a of None \<Rightarrow> Inl [ZodIssue [] ''Required''] | Some obj \<Rightarrow> Inr ())"

definition vectorIndexFields :: "string list" where
  "vectorIndexFields =
     [''index_name'', ''table_name'', ''schema_name'', ''index_method'', ''index_definition'']"

definition fieldValue :: "row \<Rightarrow> string \<Rightarrow> raw_value" where
  "fieldValue r field = (case map_of r field of None \<Rightarrow> Undefined | Some v \<Rightarrow> v)"

definition stringFieldIssues :: "nat \<Rightarrow> row \<Rightarrow> string \<Rightarrow> ZodIssue list" where
  "stringFieldIssues i r field =
     (case fieldValue r field of
        RawString _ \<Rightarrow> []
      | Undefined \<Rightarrow> [ZodIssue [decimal i, field] ''Required'']
      | v \<Rightarrow> [ZodIssue [decimal i, field] (''Expected string, received '' @ typeName v)])"

definition ListVectorIndexesOutputSchema :: "row list \<Rightarrow> ZodIssue list + row list" where
  "ListVectorIndexesOutputSchema rows =
     (let issues = concat (map (\<lambda>(i, r). concat (map (stringFieldIssues i r) vectorIndexFields))
                             (enumerate 0 rows))
      in if issues \<noteq> [] then Inl issues
         else Inr (map (\<lambda>r. map (\<lambda>field. (field, fieldValue r field)) vectorIndexFields) rows))"

text \<open>
  \<^verbatim>\<open>
  execute: async (input, context) => {
      const client = context.selfhostedClient;
      const result = await executeSqlWithFallback(client, listVectorIndexesSql, true);
      const indexes = handleSqlResponse(result, ListVectorIndexesOutputSchema);
      if (indexes.length === 0)
          context.log('No pgvector indexes found (pgvector may not be installed or no indexes created)', 'info');
      return indexes;
  }
  \<close>
\<close>

definition listVectorIndexesSql :: string where
  "listVectorIndexesSql =
     [CHR 0x0A] @ join [CHR 0x0A]
       [''            SELECT'',
        ''                ix.relname AS index_name,'',
        ''                t.relname AS table_name,'',
        ''                n.nspname AS schema_name,'',
        ''                am.amname AS index_method,'',
        ''                pg_get_indexdef(i.indexrelid) AS index_definition'',
        ''            FROM pg_index i'',
        ''            JOIN pg_class t ON t.oid = i.indrelid'',
        ''            JOIN pg_class ix ON ix.oid = i.indexrelid'',
        ''            JOIN pg_namespace n ON n.oid = t.relnamespace'',
        ''            JOIN pg_am am ON am.oid = ix.relam'',
        ''            WHERE am.amname IN ('' @ [CHR 0x27] @ ''ivfflat'' @ [CHR 0x27] @ '', '' @
           [CHR 0x27] @ ''hnsw'' @ [CHR 0x27] @ '')'',
        ''            AND n.nspname NOT IN ('' @ [CHR 0x27] @ ''pg_catalog'' @ [CHR 0x27] @ '', '' @
           [CHR 0x27] @ ''information_schema'' @ [CHR 0x27] @ '', '' @
           [CHR 0x27] @ ''pg_toast'' @ [CHR 0x27] @ '')'',
        ''            ORDER BY n.nspname, t.relname, ix.relname'']
     @ [CHR 0x0A] @ ''        ''"

definition listVectorIndexes_execute ::
  "unit \<Rightarrow> ToolContext \<Rightarrow> (thrown + tool_value) \<times> effect list" where
  "listVectorIndexes_execute input context =
     (let client = selfhostedClient context;
          (result, effects) = executeSqlWithFallback client listVectorIndexesSql (Some True)
      in case result of
           Inl err \<Rightarrow> (Inl err, effects)
         | Inr r \<Rightarrow>
             (case handleSqlResponse r ListVectorIndexesOutputSchema of
                Inl err \<Rightarrow> (Inl err, effects)
              | Inr indexes \<Rightarrow>
                  (Inr (JsonValue (rowsJson indexes)),
                   effects @
                   (if length indexes = 0
                    then [ConsoleError (''[INFO] No pgvector indexes found '' @
                            ''(pgvector may not be installed or no indexes created)'')]
                    else []))))"

definition listVectorIndexesTool :: "(row option, unit) AppTool" where
  "listVectorIndexesTool =
     \<lparr>name = ''list_vector_indexes'',
      description = ''Lists all pgvector indexes (ivfflat, hnsw) in the database. Returns empty array if pgvector is not installed or no vector indexes exist.'',
      inputSchema = ListVectorIndexesInputSchema,
      privilegeLevel = None,
      execute = listVectorIndexes_execute\<rparr>"

section \<open>Token verification (src/server/auth-middleware.ts)\<close>

text \<open>
  The middleware calls \<open>jwt.verify\<close> of the library jsonwebtoken, which is not part of
  the repository. What the middleware depends on is kept here: \<open>verify\<close> returns the
  decoded payload or throws; the errors it throws are of the classes below; and, as the
  library defines them, TokenExpiredError and NotBeforeError are subclasses of
  JsonWebTokenError (their prototype is created from \<open>JsonWebTokenError.prototype\<close>),
  so \<open>instanceof jwt.JsonWebTokenError\<close> holds of all three.
\<close>

datatype jwt_thrown =
    JsonWebTokenError string
  | TokenExpiredError string
  | NotBeforeError string
  | OtherThrown string

fun thrownMessage :: "jwt_thrown \<Rightarrow> string" where
  "thrownMessage (JsonWebTokenError m) = m"
| "thrownMessage (TokenExpiredError m) = m"
| "thrownMessage (NotBeforeError m) = m"
| "thrownMessage (OtherThrown m) = m"

fun instanceofJsonWebTokenError :: "jwt_thrown \<Rightarrow> bool" where
  "instanceofJsonWebTokenError (JsonWebTokenError _) = True"
| "instanceofJsonWebTokenError (TokenExpiredError _) = True"
| "instanceofJsonWebTokenError (NotBeforeError _) = True"
| "instanceofJsonWebTokenError (OtherThrown _) = False"

fun instanceofTokenExpiredError :: "jwt_thrown \<Rightarrow> bool" where
  "instanceofTokenExpiredError (TokenExpiredError _) = True"
| "instanceofTokenExpiredError _ = False"

text \<open>
  \<^verbatim>\<open>interface SupabaseJwtPayload { sub: string; email?: string; role?: string; exp?: number; ... }\<close>
  A decoded payload may lack any claim, also \<open>sub\<close>.
\<close>

record SupabaseJwtPayload =
  jwt_sub :: "string option"
  jwt_email :: "string option"
  jwt_role :: "string option"
  jwt_exp :: "nat option"

text \<open>
  \<open>jwt.verify(token, secret, { algorithms: ['HS256'] })\<close> as the library documents it,
  on tokens that are viewed through what they decode to: a compact token is malformed,
  or it has a payload and was signed (HS256) with some secret. The signature is checked
  before the expiry; the clock is in seconds, and a token whose \<open>exp\<close> is not after the
  clock is expired.
\<close>

record Jwt =
  signedWith :: string
  payload :: SupabaseJwtPayload

definition jwtVerify ::
  "(string \<Rightarrow> Jwt option) \<Rightarrow> nat \<Rightarrow> string \<Rightarrow> string \<Rightarrow> jwt_thrown + SupabaseJwtPayload" where
  "jwtVerify decode clock token secret =
     (case decode token of
        None \<Rightarrow> Inl (JsonWebTokenError ''jwt malformed'')
      | Some t \<Rightarrow>
          if signedWith t \<noteq> secret then Inl (JsonWebTokenError ''invalid signature'')
          else (case jwt_exp (payload t) of
                  None \<Rightarrow> Inr (payload t)
                | Some e \<Rightarrow>
                    if e \<le> clock then Inl (TokenExpiredError ''jwt expired'')
                    else Inr (payload t)))"

text \<open>
  \<^verbatim>\<open>interface AuthenticatedUser { userId: string; email: string | null; role: string; exp: number; }\<close>
\<close>

record AuthenticatedUser = UserContext +
  exp :: nat

datatype auth_outcome =
    AuthResponse (auth_status: nat) (auth_error: string) (auth_message: string)
  | AuthNext AuthenticatedUser

definition startsWith :: "string \<Rightarrow> string \<Rightarrow> bool" where
  "startsWith s p = (take (length p) s = p)"

definition endsWith :: "string \<Rightarrow> string \<Rightarrow> bool" where
  "endsWith s p = (length p \<le> length s \<and> drop (length s - length p) s = p)"

text \<open>\<open>x || d\<close> on an optional string: undefined and the empty string are falsy.\<close>

definition orElse :: "string option \<Rightarrow> string \<Rightarrow> string" where
  "orElse x d = (case x of None \<Rightarrow> d | Some v \<Rightarrow> if v = [] then d else v)"

text \<open>
  \<^verbatim>\<open>
  const authHeader = req.headers.authorization;
  if (!authHeader) { res.status(401).json({error: 'Unauthorized', message: 'Missing Authorization header'}); return; }
  if (!authHeader.startsWith('Bearer ')) { res.status(401).json({... 'Invalid Authorization header format. Expected: Bearer <token>'}); return; }
  const token = authHeader.slice(7);
  if (!token) { res.status(401).json({... 'Missing token in Authorization header'}); return; }
  try {
      const decoded = jwt.verify(token, jwtSecret, { algorithms: ['HS256'] });
      if (!decoded.sub) { res.status(401).json({... 'Invalid token: missing subject (sub) claim'}); return; }
      req.user = { userId: decoded.sub, email: decoded.email || null,
                   role: decoded.role || 'authenticated', exp: decoded.exp || 0 };
      console.error(`[AUTH] Authenticated request from user: ${req.user.email || req.user.userId}`);
      next();
  } catch (error) {
      if (error instanceof jwt.JsonWebTokenError) {
          res.status(401).json({error: 'Unauthorized', message: `Invalid token: ${error.message}`}); return; }
      if (error instanceof jwt.TokenExpiredError) {
          res.status(401).json({error: 'Unauthorized', message: 'Token has expired'}); return; }
      console.error('[AUTH] Unexpected error during token verification:', error);
      res.status(500).json({error: 'Internal Server Error', message: 'Failed to verify authentication token'});
  }
  \<close>
  The first argument is \<open>jwt.verify\<close>.
\<close>

definition createAuthMiddleware ::
  "(string \<Rightarrow> string \<Rightarrow> jwt_thrown + SupabaseJwtPayload) \<Rightarrow> string \<Rightarrow> string option
     \<Rightarrow> auth_outcome \<times> effect list" where
  "createAuthMiddleware verify secret authHeader =
     (if orElse authHeader [] = [] then
        (AuthResponse 401 ''Unauthorized'' ''Missing Authorization header'', [])
      else if \<not> startsWith (orElse authHeader []) ''Bearer '' then
        (AuthResponse 401 ''Unauthorized''
           ''Invalid Authorization header format. Expected: Bearer <token>'', [])
      else
        (let token = drop 7 (orElse authHeader []) in
         if token = [] then
           (AuthResponse 401 ''Unauthorized'' ''Missing token in Authorization header'', [])
         else
           (case verify token secret of
              Inr decoded \<Rightarrow>
                if orElse (jwt_sub decoded) [] = [] then
                  (AuthResponse 401 ''Unauthorized'' ''Invalid token: missing subject (sub) claim'', [])
                else
                  (let u = \<lparr>userId = orElse (jwt_sub decoded) [],
                            email = (if orElse (jwt_email decoded) [] = [] then None
                                     else jwt_email decoded),
                            role = orElse (jwt_role decoded) ''authenticated'',
                            exp = (case jwt_exp decoded of None \<Rightarrow> 0 | Some e \<Rightarrow> e)\<rparr>
                   in (AuthNext u,
                       [ConsoleError (''[AUTH] Authenticated request from user: '' @
                                      orElse (email u) (userId u))]))
            | Inl err \<Rightarrow>
                if instanceofJsonWebTokenError err then
                  (AuthResponse 401 ''Unauthorized'' (''Invalid token: '' @ thrownMessage err), [])
                else if instanceofTokenExpiredError err then
                  (AuthResponse 401 ''Unauthorized'' ''Token has expired'', [])
                else
                  (AuthResponse 500 ''Internal Server Error''
                     ''Failed to verify authentication token'',
                   [ConsoleError ''[AUTH] Unexpected error during token verification:'']))))"

section \<open>HTTP front-end (src/server/http-server.ts)\<close>

text \<open>
  \<^verbatim>\<open>
  interface HttpMcpServerOptions { port: number; host: string; jwtSecret: string;
      corsOrigins?: string[]; rateLimitWindowMs?: number; rateLimitMaxRequests?: number;
      requestTimeoutMs?: number; }
  \<close>
  The numbers come from \<open>parseInt\<close> of the command line and are taken here as
  integers (not NaN). Times are \<open>Date.now()\<close> readings, in milliseconds.
\<close>

record HttpMcpServerOptions =
  port :: nat
  host :: string
  jwtSecret :: string
  corsOrigins :: "string list option"
  rateLimitWindowMs :: "int option"
  rateLimitMaxRequests :: "int option"
  requestTimeoutMs :: "int option"

text \<open>
  \<^verbatim>\<open>private requestCounts: Map<string, { count: number; resetTime: number }> = new Map();\<close>
\<close>

record RateLimitRecord =
  count :: int
  resetTime :: int

type_synonym requestCounts = "string \<rightharpoonup> RateLimitRecord"

record RateLimitStatus =
  allowed :: bool
  remaining :: int
  statusResetTime :: int
  limit :: int

text \<open>
  \<^verbatim>\<open>
  for (const [key, record] of this.requestCounts.entries())
      if (now >= record.resetTime) this.requestCounts.delete(key);
  \<close>
  The sweep, as a function on the map (its log line, which counts the deleted entries,
  is left out).
\<close>

definition cleanupExpiredRateLimitEntries :: "int \<Rightarrow> requestCounts \<Rightarrow> requestCounts" where
  "cleanupExpiredRateLimitEntries now counts =
     (\<lambda>key. case counts key of
              None \<Rightarrow> None
            | Some entry \<Rightarrow> if now \<ge> resetTime entry then None else Some entry)"

text \<open>
  \<^verbatim>\<open>
  const windowMs = this.options.rateLimitWindowMs ?? 60000;
  const maxRequests = this.options.rateLimitMaxRequests ?? 100;
  const now = Date.now();
  let record = this.requestCounts.get(clientKey);
  if (!record || now >= record.resetTime) {
      record = { count: 1, resetTime: now + windowMs };
      this.requestCounts.set(clientKey, record);
      return { allowed: true, remaining: maxRequests - 1, resetTime: record.resetTime, limit: maxRequests };
  }
  if (record.count >= maxRequests)
      return { allowed: false, remaining: 0, resetTime: record.resetTime, limit: maxRequests };
  record.count++;
  return { allowed: true, remaining: maxRequests - record.count, resetTime: record.resetTime, limit: maxRequests };
  \<close>
\<close>

definition windowMsOf :: "HttpMcpServerOptions \<Rightarrow> int" where
  "windowMsOf opts = (case rateLimitWindowMs opts of None \<Rightarrow> 60000 | Some w \<Rightarrow> w)"

definition maxRequestsOf :: "HttpMcpServerOptions \<Rightarrow> int" where
  "maxRequestsOf opts = (case rateLimitMaxRequests opts of None \<Rightarrow> 100 | Some m \<Rightarrow> m)"

definition checkRateLimit ::
  "HttpMcpServerOptions \<Rightarrow> int \<Rightarrow> string \<Rightarrow> requestCounts \<Rightarrow> RateLimitStatus \<times> requestCounts" where
  "checkRateLimit opts now clientKey counts =
     (let windowMs = windowMsOf opts; maxRequests = maxRequestsOf opts;
          newWindow =
            (\<lparr>allowed = True, remaining = maxRequests - 1,
              statusResetTime = now + windowMs, limit = maxRequests\<rparr>,
             counts(clientKey \<mapsto> \<lparr>count = 1, resetTime = now + windowMs\<rparr>))
      in case counts clientKey of
           None \<Rightarrow> newWindow
         | Some entry \<Rightarrow>
             if now \<ge> resetTime entry then newWindow
             else if count entry \<ge> maxRequests then
               (\<lparr>allowed = False, remaining = 0,
                 statusResetTime = resetTime entry, limit = maxRequests\<rparr>,
                counts)
             else
               (\<lparr>allowed = True, remaining = maxRequests - (count entry + 1),
                 statusResetTime = resetTime entry, limit = maxRequests\<rparr>,
                counts(clientKey \<mapsto> entry\<lparr>count := count entry + 1\<rparr>)))"

text \<open>
  An inbound request, as far as the middleware reads it. \<open>xForwardedFor\<close> is the header
  when it is a string; \<open>bodyParses\<close> tells whether \<open>express.json()\<close> accepts the body
  (it answers 400 to a JSON body that does not parse).
\<close>

record Request =
  requestMethod :: string
  path :: string
  xForwardedFor :: "string option"
  origin :: "string option"
  authorization :: "string option"
  ip :: "string option"
  remoteAddress :: "string option"
  bodyParses :: bool

text \<open>
  \<open>String.prototype.trim\<close> on a header value (a latin-1 string): the white space and
  line terminator characters below.
\<close>

definition isWhiteSpace :: "char \<Rightarrow> bool" where
  "isWhiteSpace c = (c \<in> {CHR 0x09, CHR 0x0A, CHR 0x0B, CHR 0x0C, CHR 0x0D, CHR 0x20, CHR 0xA0})"

definition trim :: "string \<Rightarrow> string" where
  "trim s = rev (dropWhile isWhiteSpace (rev (dropWhile isWhiteSpace s)))"

text \<open>
  \<^verbatim>\<open>
  const forwarded = req.headers['x-forwarded-for'];
  if (typeof forwarded === 'string') return forwarded.split(',')[0].trim();
  return req.ip || req.socket.remoteAddress || 'unknown';
  \<close>
\<close>

definition getClientKey :: "Request \<Rightarrow> string" where
  "getClientKey req =
     (case xForwardedFor req of
        Some forwarded \<Rightarrow> trim (takeWhile (\<lambda>c. c \<noteq> CHR '','') forwarded)
      | None \<Rightarrow> orElse (ip req) (orElse (remoteAddress req) ''unknown''))"

text \<open>
  \<^verbatim>\<open>
  if (!origin) return true;
  const allowedOrigins = this.options.corsOrigins ?? [`http://localhost:${port}`,
      `http://127.0.0.1:${port}`, `http://${host}:${port}`];
  if (allowedOrigins.includes('*')) return true;
  if (allowedOrigins.includes(origin)) return true;
  for (const allowed of allowedOrigins)
      if (allowed.endsWith(':*')) {
          const baseUrl = allowed.slice(0, -2);
          if (origin.startsWith(baseUrl + ':')) return true;
      }
  return false;
  \<close>
\<close>

definition allowedOriginsOf :: "HttpMcpServerOptions \<Rightarrow> string list" where
  "allowedOriginsOf opts =
     (case corsOrigins opts of
        Some origins \<Rightarrow> origins
      | None \<Rightarrow> [''http://localhost:'' @ decimal (port opts),
                 ''http://127.0.0.1:'' @ decimal (port opts),
                 ''http://'' @ host opts @ '':'' @ decimal (port opts)])"

definition isOriginAllowed :: "HttpMcpServerOptions \<Rightarrow> string option \<Rightarrow> bool" where
  "isOriginAllowed opts originHeader =
     (if orElse originHeader [] = [] then True
      else
        (let requestOrigin = orElse originHeader []; allowedOrigins = allowedOriginsOf opts in
         if ''*'' \<in> set allowedOrigins then True
         else if requestOrigin \<in> set allowedOrigins then True
         else list_ex (\<lambda>a. endsWith a '':*'' \<and> startsWith requestOrigin (take (length a - 2) a @ '':''))
                allowedOrigins))"

text \<open>\<open>Math.ceil(x / 1000)\<close> on an integer.\<close>

definition ceilSeconds :: "int \<Rightarrow> int" where
  "ceilSeconds ms = - ((- ms) div 1000)"

text \<open>What a request ends in: a response, or the POST /mcp handler, which builds one
  MCP server for the request with \<open>mcpServerFactory(userContext)\<close> and hands the request
  to it.\<close>

datatype response_body =
    ErrorBody (body_error: string) (body_message: string) (body_retryAfter: "int option")
  | HealthyBody
  | EmptyBody
  | BadRequestBody
  | NotFoundBody

record Response =
  status :: nat
  headers :: "(string \<times> string) list"
  body :: response_body

datatype http_outcome =
    Responded Response
  | Dispatched "(string \<times> string) list" "UserContext option"

definition securityHeaders :: "(string \<times> string) list" where
  "securityHeaders =
     [(''X-Content-Type-Options'', ''nosniff''),
      (''X-Frame-Options'', ''DENY''),
      (''X-XSS-Protection'', ''1; mode=block''),
      (''Strict-Transport-Security'', ''max-age=31536000; includeSubDomains''),
      (''Content-Security-Policy'', ''default-src '' @ [CHR 0x27] @ ''none'' @ [CHR 0x27] @
         ''; frame-ancestors '' @ [CHR 0x27] @ ''none'' @ [CHR 0x27]),
      (''Referrer-Policy'', ''no-referrer'')]"

definition corsHeaders :: "string option \<Rightarrow> (string \<times> string) list" where
  "corsHeaders originHeader =
     [(''Access-Control-Allow-Origin'',
         (if orElse originHeader [] = [] then ''*'' else orElse originHeader [])),
      (''Access-Control-Allow-Methods'', ''GET, POST, DELETE, OPTIONS''),
      (''Access-Control-Allow-Headers'', ''Content-Type, Authorization, Accept, Mcp-Session-Id''),
      (''Access-Control-Expose-Headers'', ''Mcp-Session-Id''),
      (''Access-Control-Allow-Credentials'', ''true'')]"

text \<open>
  Express matches the path of a route without regard to case and to one trailing slash
  (its defaults), and a middleware mounted at a path on every path below it; a GET route
  also answers HEAD.
\<close>

definition lowerChar :: "char \<Rightarrow> char" where
  "lowerChar c =
     (let n = (of_char c :: nat) in if 65 \<le> n \<and> n \<le> 90 then char_of (n + 32) else c)"

definition routeMatches :: "string \<Rightarrow> string \<Rightarrow> bool" where
  "routeMatches route p = (map lowerChar p = route \<or> map lowerChar p = route @ ''/'')"

definition mountMatches :: "string \<Rightarrow> string \<Rightarrow> bool" where
  "mountMatches mount p = (map lowerChar p = mount \<or> startsWith (map lowerChar p) (mount @ ''/''))"

text \<open>
  The routes, reached when every middleware has called \<open>next()\<close>:
  \<^verbatim>\<open>
  this.app.get('/health', (_req, res) => { res.json({ status: 'healthy' }); });
  this.app.use('/mcp', createAuthMiddleware(this.options.jwtSecret));
  this.app.post('/mcp', ...  this.mcpServerFactory(userContext) ...);
  this.app.get('/mcp', ... 405 ...);
  this.app.delete('/mcp', ... 405 ...);
  \<close>
\<close>

definition routes ::
  "HttpMcpServerOptions \<Rightarrow> (string \<Rightarrow> string \<Rightarrow> jwt_thrown + SupabaseJwtPayload) \<Rightarrow> Request
     \<Rightarrow> (string \<times> string) list \<Rightarrow> http_outcome \<times> effect list" where
  "routes opts verify req hdrs =
     (if (requestMethod req = ''GET'' \<or> requestMethod req = ''HEAD'') \<and> routeMatches ''/health'' (path req) then
        (Responded \<lparr>status = 200, headers = hdrs, body = HealthyBody\<rparr>, [])
      else if mountMatches ''/mcp'' (path req) then
        (case createAuthMiddleware verify (jwtSecret opts) (authorization req) of
           (AuthResponse st err msg, effects) \<Rightarrow>
             (Responded \<lparr>status = st, headers = hdrs, body = ErrorBody err msg None\<rparr>, effects)
         | (AuthNext u, effects) \<Rightarrow>
             if requestMethod req = ''POST'' \<and> routeMatches ''/mcp'' (path req) then
               (Dispatched hdrs (Some (UserContext.truncate u)), effects)
             else if (requestMethod req = ''GET'' \<or> requestMethod req = ''HEAD'') \<and> routeMatches ''/mcp'' (path req) then
               (Responded \<lparr>status = 405, headers = hdrs,
                           body = ErrorBody ''Method Not Allowed''
                             ''GET requests are not supported in stateless mode. Use POST for MCP requests.''
                             None\<rparr>, effects)
             else if requestMethod req = ''DELETE'' \<and> routeMatches ''/mcp'' (path req) then
               (Responded \<lparr>status = 405, headers = hdrs,
                           body = ErrorBody ''Method Not Allowed''
                             ''Session termination is not supported in stateless mode.'' None\<rparr>,
                effects)
             else (Responded \<lparr>status = 404, headers = hdrs, body = NotFoundBody\<rparr>, effects))
      else (Responded \<lparr>status = 404, headers = hdrs, body = NotFoundBody\<rparr>, []))"

text \<open>
  The middleware chain of \<open>setupMiddleware\<close>, in its order: security headers, body
  parser, timeout timer (armed, no effect on a response that is sent at once), rate
  limit, CORS; then the routes. \<open>now\<close> is the clock reading inside
  \<open>checkRateLimit\<close>, \<open>now'\<close> the later one of the retry-after computation.
  \<^verbatim>\<open>
  if (req.path === '/health') { next(); return; }
  const clientKey = this.getClientKey(req);
  const { allowed, remaining, resetTime, limit } = this.checkRateLimit(clientKey);
  res.header('X-RateLimit-Limit', String(limit)); ...
  if (!allowed) {
      const retryAfterSeconds = Math.max(1, Math.ceil((resetTime - Date.now()) / 1000));
      res.header('Retry-After', String(retryAfterSeconds));
      res.status(429).json({ error: 'Too Many Requests',
          message: 'Rate limit exceeded. Please try again later.', retryAfter: retryAfterSeconds });
      return;
  }
  next();
  \<close>
\<close>

definition retryAfterSeconds :: "int \<Rightarrow> int \<Rightarrow> int" where
  "retryAfterSeconds reset now' = max 1 (ceilSeconds (reset - now'))"

definition rateLimitHeaders :: "RateLimitStatus \<Rightarrow> (string \<times> string) list" where
  "rateLimitHeaders st =
     [(''X-RateLimit-Limit'', decimalInt (limit st)),
      (''X-RateLimit-Remaining'', decimalInt (remaining st)),
      (''X-RateLimit-Reset'', decimalInt (ceilSeconds (statusResetTime st)))]"

definition corsAndRoutes ::
  "HttpMcpServerOptions \<Rightarrow> (string \<Rightarrow> string \<Rightarrow> jwt_thrown + SupabaseJwtPayload) \<Rightarrow> Request
     \<Rightarrow> (string \<times> string) list \<Rightarrow> http_outcome \<times> effect list" where
  "corsAndRoutes opts verify req hdrs =
     (if \<not> isOriginAllowed opts (origin req) then
        (if requestMethod req = ''OPTIONS''
         then (Responded \<lparr>status = 403, headers = hdrs, body = EmptyBody\<rparr>, [])
         else (Responded \<lparr>status = 403, headers = hdrs,
                          body = ErrorBody ''Forbidden'' ''Origin not allowed by CORS policy'' None\<rparr>,
               []))
      else if requestMethod req = ''OPTIONS'' then
        (Responded \<lparr>status = 204, headers = hdrs @ corsHeaders (origin req), body = EmptyBody\<rparr>, [])
      else routes opts verify req (hdrs @ corsHeaders (origin req)))"

definition tooManyRequests :: "RateLimitStatus \<Rightarrow> int \<Rightarrow> http_outcome \<times> effect list" where
  "tooManyRequests st r =
     (Responded
        \<lparr>status = 429,
         headers = securityHeaders @ rateLimitHeaders st @ [(''Retry-After'', decimalInt r)],
         body = ErrorBody ''Too Many Requests''
                  ''Rate limit exceeded. Please try again later.'' (Some r)\<rparr>, [])"

definition handleRequest ::
  "HttpMcpServerOptions \<Rightarrow> (string \<Rightarrow> string \<Rightarrow> jwt_thrown + SupabaseJwtPayload)
     \<Rightarrow> Request \<Rightarrow> int \<Rightarrow> int \<Rightarrow> requestCounts
     \<Rightarrow> (http_outcome \<times> effect list) \<times> requestCounts" where
  "handleRequest opts verify req now now' counts =
     (if \<not> bodyParses req then
        ((Responded \<lparr>status = 400, headers = securityHeaders, body = BadRequestBody\<rparr>, []), counts)
      else if path req = ''/health'' then
        (corsAndRoutes opts verify req securityHeaders, counts)
      else
        (let (st, counts') = checkRateLimit opts now (getClientKey req) counts in
         if \<not> allowed st then
           (tooManyRequests st (retryAfterSeconds (statusResetTime st) now'), counts')
         else (corsAndRoutes opts verify req (securityHeaders @ rateLimitHeaders st), counts')))"

text \<open>
  What happens to the rate limit map over time: the server handles the inbound requests
  one after the other (the rate limit middleware runs to its end without yielding), and
  between them the periodic sweep may run. An inbound request comes with its two clock
  readings, a sweep with its one.
\<close>

datatype event = Inbound Request int int | Sweep int

fun step ::
  "HttpMcpServerOptions \<Rightarrow> (string \<Rightarrow> string \<Rightarrow> jwt_thrown + SupabaseJwtPayload)
     \<Rightarrow> event \<Rightarrow> requestCounts \<Rightarrow> (http_outcome \<times> effect list) option \<times> requestCounts" where
  "step opts verify (Inbound req now now') counts =
     (Some (fst (handleRequest opts verify req now now' counts)),
      snd (handleRequest opts verify req now now' counts))"
| "step opts verify (Sweep now) counts = (None, cleanupExpiredRateLimitEntries now counts)"

fun serve ::
  "HttpMcpServerOptions \<Rightarrow> (string \<Rightarrow> string \<Rightarrow> jwt_thrown + SupabaseJwtPayload)
     \<Rightarrow> event list \<Rightarrow> requestCounts
     \<Rightarrow> (http_outcome \<times> effect list) option list \<times> requestCounts" where
  "serve opts verify [] counts = ([], counts)"
| "serve opts verify (e # rest) counts =
     (fst (step opts verify e counts) #
        fst (serve opts verify rest (snd (step opts verify e counts))),
      snd (serve opts verify rest (snd (step opts verify e counts))))"

text \<open>
  \<open>subjectTo k e\<close>: the event is a request that the rate limiter counts for client key
  \<open>k\<close> (its body parses, its path is not /health, its key is \<open>k\<close>).
  \<open>withinWindow k t0 w e\<close>: if the event is such a request, its clock readings lie in
  the window of length \<open>w\<close> that starts at \<open>t0\<close>; if it is a sweep, it runs before
  that window ends. \<open>passesRateLimit\<close>: the outcome of the event is that the rate limit
  stage let the request through to the CORS stage and the routes, and it is not a 429
  response.
\<close>

definition isTooManyRequests :: "http_outcome \<times> effect list \<Rightarrow> bool" where
  "isTooManyRequests out =
     (case fst out of Responded r \<Rightarrow> status r = 429 | Dispatched hdrs u \<Rightarrow> False)"

fun subjectTo :: "string \<Rightarrow> event \<Rightarrow> bool" where
  "subjectTo k (Inbound req now now') =
     (bodyParses req \<and> path req \<noteq> ''/health'' \<and> getClientKey req = k)"
| "subjectTo k (Sweep now) = False"

fun withinWindow :: "string \<Rightarrow> int \<Rightarrow> int \<Rightarrow> event \<Rightarrow> bool" where
  "withinWindow k t0 w (Inbound req now now') =
     (subjectTo k (Inbound req now now') \<longrightarrow> t0 \<le> now \<and> now < t0 + w \<and> now \<le> now')"
| "withinWindow k t0 w (Sweep now) = (now < t0 + w)"

fun passesRateLimit ::
  "HttpMcpServerOptions \<Rightarrow> (string \<Rightarrow> string \<Rightarrow> jwt_thrown + SupabaseJwtPayload)
     \<Rightarrow> event \<Rightarrow> (http_outcome \<times> effect list) option \<Rightarrow> bool" where
  "passesRateLimit opts verify (Inbound req now now') (Some out) =
     ((\<exists>st. allowed st \<and>
         out = corsAndRoutes opts verify req (securityHeaders @ rateLimitHeaders st))
      \<and> \<not> isTooManyRequests out)"
| "passesRateLimit opts verify (Inbound req now now') None = False"
| "passesRateLimit opts verify (Sweep now) out = False"

section \<open>Sample configurations\<close>

text \<open>
  A client with a direct connection and a service-role key, whose direct connection
  answers one row without columns; and the two tools above, each as the catalog of a
  server.
\<close>

definition sampleClient :: SelfhostedSupabaseClient where
  "sampleClient =
     \<lparr>isPgAvailable = True, isServiceRoleAvailable = True,
      executeSqlWithPg = (\<lambda>q. Inr (SqlSuccessResponse [[]])),
      executeSqlViaServiceRoleRpc = (\<lambda>q ro. Inr (SqlSuccessResponse []))\<rparr>"

text \<open>
  Three tokens as the verifier sees them (one expired at clock 1000, one signed with
  another secret, one valid until 9000); a server configuration with a window of 1500 ms
  and at most 2 requests per window; requests of the client 10.0.0.1; and a rate limit
  map in which that client has used up its window.
\<close>

definition sampleDecode :: "string \<Rightarrow> Jwt option" where
  "sampleDecode token =
     (if token = ''expired.jwt.token'' then
        Some \<lparr>signedWith = ''jwt-secret'',
              payload = \<lparr>jwt_sub = Some ''user-123'', jwt_email = None, jwt_role = None,
                         jwt_exp = Some 1000\<rparr>\<rparr>
      else if token = ''forged.jwt.token'' then
        Some \<lparr>signedWith = ''wrong-secret'',
              payload = \<lparr>jwt_sub = Some ''user-123'', jwt_email = None,
                         jwt_role = Some ''service_role'', jwt_exp = Some 9000\<rparr>\<rparr>
      else if token = ''valid.jwt.token'' then
        Some \<lparr>signedWith = ''jwt-secret'',
              payload = \<lparr>jwt_sub = Some ''user-123'', jwt_email = None, jwt_role = None,
                         jwt_exp = Some 9000\<rparr>\<rparr>
      else None)"

definition sampleOptions :: HttpMcpServerOptions where
  "sampleOptions =
     \<lparr>port = 3000, host = ''127.0.0.1'', jwtSecret = ''jwt-secret'', corsOrigins = None,
      rateLimitWindowMs = Some 1500, rateLimitMaxRequests = Some 2, requestTimeoutMs = None\<rparr>"

definition sampleRequest :: "string \<Rightarrow> string \<Rightarrow> string option \<Rightarrow> string option \<Rightarrow> Request" where
  "sampleRequest m p originHeader authHeader =
     \<lparr>requestMethod = m, path = p, xForwardedFor = None, origin = originHeader,
      authorization = authHeader, ip = Some ''10.0.0.1'', remoteAddress = None,
      bodyParses = True\<rparr>"

definition exhausted :: requestCounts where
  "exhausted = [''10.0.0.1'' \<mapsto> \<lparr>count = 2, resetTime = 1500\<rparr>]"

definition sqlCatalog :: "string \<rightharpoonup> (ExecuteSqlArguments, ExecuteSqlInput) AppTool" where
  "sqlCatalog = [''execute_sql'' \<mapsto> executeSqlTool]"

definition vectorCatalog :: "string \<rightharpoonup> (row option, unit) AppTool" where
  "vectorCatalog = [''list_vector_indexes'' \<mapsto> listVectorIndexesTool]"

text \<open>A client whose direct connection answers one row that describes a vector index.\<close>

definition vectorClient :: SelfhostedSupabaseClient where
  "vectorClient =
     \<lparr>isPgAvailable = True, isServiceRoleAvailable = False,
      executeSqlWithPg =
        (\<lambda>q. Inr (SqlSuccessResponse
                  [[(''index_name'', RawString ''items_embedding_idx''),
                    (''table_name'', RawString ''items''),
                    (''schema_name'', RawString ''public''),
                    (''index_method'', RawString ''hnsw''),
                    (''index_definition'', RawString ''CREATE INDEX items_embedding_idx ON public.items USING hnsw (embedding)'')]])),
      executeSqlViaServiceRoleRpc = (\<lambda>q ro. Inr (SqlSuccessResponse []))\<rparr>"

section \<open>Claims about the access control evaluator\<close>

text \<open>
  C2. For every role string and privilege level, canAccessTool is exactly the fixed
  policy table: role service_role is allowed regular and privileged; role
  authenticated is allowed regular only; role anon is allowed nothing; and every role
  string outside the table gets the answer that authenticated gets, which is never the
  answer of service_role on a privileged tool. The result is a function of the two
  arguments alone.
\<close>

theorem canAccessTool_policy_table:
  "canAccessTool ''service_role'' p
   \<and> canAccessTool ''authenticated'' p = (p = Regular)
   \<and> \<not> canAccessTool ''anon'' p
   \<and> (r \<notin> {''service_role'', ''authenticated'', ''anon''} \<longrightarrow>
        canAccessTool r p = canAccessTool ''authenticated'' p
        \<and> \<not> canAccessTool r Privileged)"
  by (cases p) (auto simp: canAccessTool_def ROLE_PRIVILEGE_MAP_def)

theorem canAccessTool_policy_table_witness:
  "''admin'' \<notin> {''service_role'', ''authenticated'', ''anon''}
   \<and> canAccessTool ''admin'' Regular = canAccessTool ''authenticated'' Regular
   \<and> \<not> canAccessTool ''admin'' Privileged
   \<and> canAccessTool ''service_role'' Regular
   \<and> \<not> canAccessTool ''anon'' Regular"
  using canAccessTool_policy_table [of Regular "''admin''"] by simp

section \<open>Claims about the execution fallback chain\<close>

text \<open>
  C3. For every SQL statement and read-only hint, when a direct database connection is
  configured, executeSqlWithFallback runs the statement over the direct connection and
  returns whatever that connection answers (rows or a database error), and makes no
  service-role RPC call, whatever the answer is. A service-role RPC call is made exactly
  when no direct connection is configured and a service-role key is.
\<close>

theorem executeSqlWithFallback_direct_first:
  "(isPgAvailable client \<longrightarrow>
      executeSqlWithFallback client sql readOnly =
        (executeSqlWithPg client sql,
         [ConsoleInfo ''Using direct database connection (bypassing JWT)...'', PgCall sql]))
   \<and> ((\<exists>e \<in> set (snd (executeSqlWithFallback client sql readOnly)). isServiceRoleRpcCall e)
        = (\<not> isPgAvailable client \<and> isServiceRoleAvailable client))"
  by (simp add: executeSqlWithFallback_def Let_def)

theorem executeSqlWithFallback_direct_first_witness:
  "isPgAvailable
     \<lparr>isPgAvailable = True, isServiceRoleAvailable = True,
      executeSqlWithPg = (\<lambda>_. Inr (SqlErrorResponse ''relation does not exist'' ''42P01'')),
      executeSqlViaServiceRoleRpc = (\<lambda>_ _. Inr (SqlSuccessResponse [[]]))\<rparr>
   \<and> executeSqlWithFallback
     \<lparr>isPgAvailable = True, isServiceRoleAvailable = True,
      executeSqlWithPg = (\<lambda>_. Inr (SqlErrorResponse ''relation does not exist'' ''42P01'')),
      executeSqlViaServiceRoleRpc = (\<lambda>_ _. Inr (SqlSuccessResponse [[]]))\<rparr>
     ''SELECT 1'' (Some False)
     = (Inr (SqlErrorResponse ''relation does not exist'' ''42P01''),
        [ConsoleInfo ''Using direct database connection (bypassing JWT)...'',
         PgCall ''SELECT 1''])"
  using executeSqlWithFallback_direct_first
    [of "\<lparr>isPgAvailable = True, isServiceRoleAvailable = True,
      executeSqlWithPg = (\<lambda>_. Inr (SqlErrorResponse ''relation does not exist'' ''42P01'')),
      executeSqlViaServiceRoleRpc = (\<lambda>_ _. Inr (SqlSuccessResponse [[]]))\<rparr>"
        "''SELECT 1''" "Some False"]
  by simp

text \<open>
  C6. Whenever neither a direct database connection nor a service-role key is
  configured, executeSqlWithFallback returns, for every SQL statement, the configuration
  error (an error object whose code is the string MCP_CONFIG_ERROR) and performs no
  effect at all: neither execution primitive is invoked. It is the only branch with no
  call of an execution primitive: the effects are free of backend calls exactly when
  neither credential is configured.
\<close>

theorem executeSqlWithFallback_config_error:
  "(\<not> isPgAvailable client \<and> \<not> isServiceRoleAvailable client \<longrightarrow>
      executeSqlWithFallback client sql readOnly =
        (Inr (SqlErrorResponse CONFIG_ERROR_MESSAGE ''MCP_CONFIG_ERROR''), []))
   \<and> ((\<forall>e \<in> set (snd (executeSqlWithFallback client sql readOnly)). \<not> isBackendCall e)
        = (\<not> isPgAvailable client \<and> \<not> isServiceRoleAvailable client))"
  by (simp add: executeSqlWithFallback_def Let_def)

theorem executeSqlWithFallback_config_error_witness:
  "\<not> isPgAvailable
     \<lparr>isPgAvailable = False, isServiceRoleAvailable = False,
      executeSqlWithPg = (\<lambda>_. Inr (SqlSuccessResponse [])),
      executeSqlViaServiceRoleRpc = (\<lambda>_ _. Inr (SqlSuccessResponse []))\<rparr>
   \<and> \<not> isServiceRoleAvailable
     \<lparr>isPgAvailable = False, isServiceRoleAvailable = False,
      executeSqlWithPg = (\<lambda>_. Inr (SqlSuccessResponse [])),
      executeSqlViaServiceRoleRpc = (\<lambda>_ _. Inr (SqlSuccessResponse []))\<rparr>
   \<and> executeSqlWithFallback
     \<lparr>isPgAvailable = False, isServiceRoleAvailable = False,
      executeSqlWithPg = (\<lambda>_. Inr (SqlSuccessResponse [])),
      executeSqlViaServiceRoleRpc = (\<lambda>_ _. Inr (SqlSuccessResponse []))\<rparr>
     ''SELECT 1'' None
     = (Inr (SqlErrorResponse CONFIG_ERROR_MESSAGE ''MCP_CONFIG_ERROR''), [])"
  using executeSqlWithFallback_config_error
    [of "\<lparr>isPgAvailable = False, isServiceRoleAvailable = False,
      executeSqlWithPg = (\<lambda>_. Inr (SqlSuccessResponse [])),
      executeSqlViaServiceRoleRpc = (\<lambda>_ _. Inr (SqlSuccessResponse []))\<rparr>"
        "''SELECT 1''" None]
  by simp

section \<open>Claims about the dispatcher\<close>

text \<open>Every element of a joined array occurs in the joined text.\<close>

lemma join_contains:
  "x \<in> set xs \<Longrightarrow> \<exists>pre post. join sep xs = pre @ x @ post"
proof (induction sep xs rule: join.induct)
  case (1 sep)
  then show ?case by simp
next
  case (2 sep y)
  then have "join sep [y] = [] @ x @ []" by simp
  then show ?case by blast
next
  case (3 sep y z zs)
  show ?case
  proof (cases "x = y")
    case True
    then have "join sep (y # z # zs) = [] @ x @ (sep @ join sep (z # zs))" by simp
    then show ?thesis by blast
  next
    case False
    with 3 obtain pre post where "join sep (z # zs) = pre @ x @ post" by auto
    then have "join sep (y # z # zs) = (y @ sep @ pre) @ x @ post" by simp
    then show ?thesis by blast
  qed
qed

text \<open>
  C5. For every tool call that names a tool which is not in the effective
  (whitelist-filtered) catalog, the dispatcher throws the "is available but not enabled
  by the current server configuration" error when the name is in the full catalog, and
  the "Unknown tool" error when the name is in neither catalog. The two messages are
  never equal, and in both cases nothing else happens: no effect is performed, so the
  authorize, validate and execute steps are not reached.
\<close>

theorem callTool_unregistered:
  "registeredTools toolName = None \<Longrightarrow>
     (availableTools toolName \<noteq> None \<longrightarrow>
        callTool registeredTools availableTools client wsPath userContext toolName arguments
          = (McpError MethodNotFound
               (''Tool '' @ [CHR 0x22] @ toolName @ [CHR 0x22] @
                '' is available but not enabled by the current server configuration.''), []))
   \<and> (availableTools toolName = None \<longrightarrow>
        callTool registeredTools availableTools client wsPath userContext toolName arguments
          = (McpError MethodNotFound (''Unknown tool: '' @ toolName), []))
   \<and> ''Tool '' @ [CHR 0x22] @ toolName @ [CHR 0x22] @
         '' is available but not enabled by the current server configuration.''
       \<noteq> ''Unknown tool: '' @ otherName"
  by (simp add: callTool_def disabledMessage_def unknownMessage_def)

theorem callTool_unregistered_witness:
  "filterTools sqlCatalog (Some {''list_tables''}) ''execute_sql'' = None
   \<and> sqlCatalog ''execute_sql'' \<noteq> None
   \<and> callTool (filterTools sqlCatalog (Some {''list_tables''})) sqlCatalog sampleClient ''/ws''
        (Some \<lparr>userId = ''u1'', email = None, role = ''service_role''\<rparr>) ''execute_sql''
        \<lparr>arg_sql = RawString ''SELECT 1'', arg_read_only = Undefined\<rparr>
       = (McpError MethodNotFound
            (''Tool '' @ [CHR 0x22] @ ''execute_sql'' @ [CHR 0x22] @
             '' is available but not enabled by the current server configuration.''), [])
   \<and> filterTools sqlCatalog (Some {''list_tables''}) ''drop_everything'' = None
   \<and> sqlCatalog ''drop_everything'' = None
   \<and> callTool (filterTools sqlCatalog (Some {''list_tables''})) sqlCatalog sampleClient ''/ws''
        (Some \<lparr>userId = ''u1'', email = None, role = ''service_role''\<rparr>) ''drop_everything''
        \<lparr>arg_sql = RawString ''SELECT 1'', arg_read_only = Undefined\<rparr>
       = (McpError MethodNotFound ''Unknown tool: drop_everything'', [])"
proof -
  let ?registered = "filterTools sqlCatalog (Some {''list_tables''})"
  let ?u = "Some \<lparr>userId = ''u1'', email = None, role = ''service_role''\<rparr>"
  let ?args = "\<lparr>arg_sql = RawString ''SELECT 1'', arg_read_only = Undefined\<rparr>"
  have r1: "?registered ''execute_sql'' = None" and r2: "?registered ''drop_everything'' = None"
    by (simp_all add: filterTools_def)
  have a1: "sqlCatalog ''execute_sql'' \<noteq> None" and a2: "sqlCatalog ''drop_everything'' = None"
    by (simp_all add: sqlCatalog_def)
  from callTool_unregistered
    [where registeredTools = ?registered and availableTools = sqlCatalog
       and toolName = "''execute_sql''" and client = sampleClient and wsPath = "''/ws''"
       and userContext = ?u and arguments = ?args, OF r1] a1
  have d: "callTool ?registered sqlCatalog sampleClient ''/ws'' ?u ''execute_sql'' ?args
       = (McpError MethodNotFound
            (''Tool '' @ [CHR 0x22] @ ''execute_sql'' @ [CHR 0x22] @
             '' is available but not enabled by the current server configuration.''), [])"
    by blast
  from callTool_unregistered
    [where registeredTools = ?registered and availableTools = sqlCatalog
       and toolName = "''drop_everything''" and client = sampleClient and wsPath = "''/ws''"
       and userContext = ?u and arguments = ?args, OF r2] a2
  have "callTool ?registered sqlCatalog sampleClient ''/ws'' ?u ''drop_everything'' ?args
       = (McpError MethodNotFound (''Unknown tool: '' @ ''drop_everything''), [])"
    by blast
  then have k: "callTool ?registered sqlCatalog sampleClient ''/ws'' ?u ''drop_everything'' ?args
       = (McpError MethodNotFound ''Unknown tool: drop_everything'', [])"
    by simp
  from r1 a1 d r2 a2 k show ?thesis by blast
qed

text \<open>
  C1. In HTTP mode, for every call that carries an authenticated identity and names a
  registered tool whose required privilege level is privileged: if the role of the
  caller does not include that privilege, the dispatcher throws the access-denied error,
  whose message names the required privilege and the role of the caller, writes the
  [SECURITY] audit line, and performs nothing else: the execute function of the tool is
  not invoked and no backend call is made. When no identity is present (stdio mode) the
  check is skipped: the call goes straight to the validate and execute steps.
\<close>

theorem callTool_privileged_denied:
  "registeredTools toolName = Some tool \<Longrightarrow> privilegeLevel tool = Some Privileged \<Longrightarrow>
     (\<not> canAccessTool (role u) Privileged \<longrightarrow>
        callTool registeredTools availableTools client wsPath (Some u) toolName arguments
          = (McpError InvalidRequest
               (''Access denied: Tool '' @ [CHR 0x27] @ toolName @ [CHR 0x27] @
                '' requires '' @ [CHR 0x27] @ ''privileged'' @ [CHR 0x27] @ '' privilege. '' @
                ''Your role '' @ [CHR 0x27] @ role u @ [CHR 0x27] @
                '' does not have sufficient permissions.''),
             [ConsoleError
                (''[SECURITY] Access denied: User '' @ emailOrUserId u @ '' (role: '' @ role u @
                 '') attempted to access '' @ toolName @ '' (requires: privileged)'')])
        \<and> (\<forall>e \<in> set (snd (callTool registeredTools availableTools client wsPath (Some u)
                               toolName arguments)).
              \<not> isToolExecute e \<and> \<not> isBackendCall e))
   \<and> callTool registeredTools availableTools client wsPath None toolName arguments
       = tryExecuteTool client wsPath None tool toolName arguments"
  by (simp add: callTool_def accessDeniedMessage_def securityLogLine_def)

theorem callTool_privileged_denied_witness:
  "sqlCatalog ''execute_sql'' = Some executeSqlTool
   \<and> privilegeLevel executeSqlTool = Some Privileged
   \<and> \<not> canAccessTool (role \<lparr>userId = ''u1'', email = Some ''a@b.c'', role = ''authenticated''\<rparr>) Privileged
   \<and> callTool sqlCatalog sqlCatalog sampleClient ''/ws''
        (Some \<lparr>userId = ''u1'', email = Some ''a@b.c'', role = ''authenticated''\<rparr>) ''execute_sql''
        \<lparr>arg_sql = RawString ''SELECT 1'', arg_read_only = Undefined\<rparr>
       = (McpError InvalidRequest
            (''Access denied: Tool '' @ [CHR 0x27] @ ''execute_sql'' @ [CHR 0x27] @
             '' requires '' @ [CHR 0x27] @ ''privileged'' @ [CHR 0x27] @
             '' privilege. Your role '' @ [CHR 0x27] @ ''authenticated'' @ [CHR 0x27] @
             '' does not have sufficient permissions.''),
          [ConsoleError ''[SECURITY] Access denied: User a@b.c (role: authenticated) attempted to access execute_sql (requires: privileged)''])
   \<and> callTool sqlCatalog sqlCatalog sampleClient ''/ws'' None ''execute_sql''
        \<lparr>arg_sql = RawString ''SELECT 1'', arg_read_only = Undefined\<rparr>
       = (CallToolResult (''['' @ [CHR 0x0A] @ ''  {}'' @ [CHR 0x0A] @ '']'') False,
          [ToolExecute ''execute_sql'',
           ConsoleError ''[AUDIT] SQL execution by user=unknown (stdio mode): SELECT 1'',
           ConsoleError ''[INFO] Executing SQL (readOnly: false)'',
           ConsoleInfo ''Using direct database connection (bypassing JWT)...'',
           PgCall ''SELECT 1''])"
proof -
  let ?u = "\<lparr>userId = ''u1'', email = Some ''a@b.c'', role = ''authenticated''\<rparr>"
  let ?args = "\<lparr>arg_sql = RawString ''SELECT 1'', arg_read_only = Undefined\<rparr>"
  have a: "sqlCatalog ''execute_sql'' = Some executeSqlTool"
    by (simp add: sqlCatalog_def)
  have b: "privilegeLevel executeSqlTool = Some Privileged"
    by (simp add: executeSqlTool_def)
  have c: "\<not> canAccessTool (role ?u) Privileged"
    by (simp add: canAccessTool_def ROLE_PRIVILEGE_MAP_def)
  note t = callTool_privileged_denied
    [where registeredTools = sqlCatalog and availableTools = sqlCatalog
       and toolName = "''execute_sql''" and tool = executeSqlTool and u = ?u
       and client = sampleClient and wsPath = "''/ws''" and arguments = ?args, OF a b]
  from t c have d: "callTool sqlCatalog sqlCatalog sampleClient ''/ws'' (Some ?u) ''execute_sql'' ?args
       = (McpError InvalidRequest
            (''Access denied: Tool '' @ [CHR 0x27] @ ''execute_sql'' @ [CHR 0x27] @
             '' requires '' @ [CHR 0x27] @ ''privileged'' @ [CHR 0x27] @
             '' privilege. Your role '' @ [CHR 0x27] @ ''authenticated'' @ [CHR 0x27] @
             '' does not have sufficient permissions.''),
          [ConsoleError ''[SECURITY] Access denied: User a@b.c (role: authenticated) attempted to access execute_sql (requires: privileged)''])"
    by (simp add: emailOrUserId_def)
  from t have "callTool sqlCatalog sqlCatalog sampleClient ''/ws'' None ''execute_sql'' ?args
       = tryExecuteTool sampleClient ''/ws'' None executeSqlTool ''execute_sql'' ?args"
    by blast
  also have "\<dots> = (CallToolResult (''['' @ [CHR 0x0A] @ ''  {}'' @ [CHR 0x0A] @ '']'') False,
          [ToolExecute ''execute_sql'',
           ConsoleError ''[AUDIT] SQL execution by user=unknown (stdio mode): SELECT 1'',
           ConsoleError ''[INFO] Executing SQL (readOnly: false)'',
           ConsoleInfo ''Using direct database connection (bypassing JWT)...'',
           PgCall ''SELECT 1''])"
    by (simp add: executeSqlTool_def tryExecuteTool_def ExecuteSqlInputSchema_def
        executeSql_execute_def sampleClient_def executeSqlWithFallback_def handleSqlResponse_def
        ExecuteSqlOutputSchema_def rowsJson_def rowJson_def boolText_def Let_def)
  finally have e: "callTool sqlCatalog sqlCatalog sampleClient ''/ws'' None ''execute_sql'' ?args
       = (CallToolResult (''['' @ [CHR 0x0A] @ ''  {}'' @ [CHR 0x0A] @ '']'') False,
          [ToolExecute ''execute_sql'',
           ConsoleError ''[AUDIT] SQL execution by user=unknown (stdio mode): SELECT 1'',
           ConsoleError ''[INFO] Executing SQL (readOnly: false)'',
           ConsoleInfo ''Using direct database connection (bypassing JWT)...'',
           PgCall ''SELECT 1''])" .
  from a b c d e show ?thesis by blast
qed

text \<open>Every issue of a ZodError occurs in the message of the catch clause.\<close>

lemma formatIssue_in_message:
  assumes "e \<in> set issues"
  shows "\<exists>pre post. errorMessageOf toolName (ZodError issues)
           = pre @ (join ''.'' (issue_path e) @ '': '' @ issue_message e) @ post"
proof -
  from assms have "formatIssue e \<in> set (map formatIssue issues)" by simp
  from join_contains [OF this, of "'', ''"]
  obtain pre post where j: "join '', '' (map formatIssue issues) = pre @ formatIssue e @ post"
    by blast
  have "errorMessageOf toolName (ZodError issues)
      = (''Error executing tool '' @ toolName @ '': '' @ ''Input validation failed: '' @ pre)
        @ (join ''.'' (issue_path e) @ '': '' @ issue_message e) @ post"
    by (simp add: j formatIssue_def)
  then show ?thesis by blast
qed

text \<open>
  C8. For every tool call whose raw arguments fail the input contract of the tool, the
  execute function of the tool is never invoked; and when the call reaches the validate
  step (it passed the authorize step), the handler returns one in-band error
  (\<open>isError\<close> set) whose message is built from all the issues of the ZodError: every
  issue occurs in it with its path, joined by dots, and its message.
\<close>

theorem callTool_validation_failure:
  "registeredTools toolName = Some tool \<Longrightarrow> inputSchema tool arguments = Inl issues \<Longrightarrow>
     (\<forall>e \<in> set (snd (callTool registeredTools availableTools client wsPath userContext
                          toolName arguments)). \<not> isToolExecute e)
   \<and> (authorizePasses userContext tool \<longrightarrow>
        callTool registeredTools availableTools client wsPath userContext toolName arguments
          = (CallToolResult
               (''Error executing tool '' @ toolName @ '': Input validation failed: '' @
                join '', '' (map formatIssue issues)) True,
             [ConsoleErrorWith (''Error executing tool '' @ toolName @ '':'') (ZodError issues)]))
   \<and> (\<forall>e \<in> set issues. \<exists>pre post.
          ''Error executing tool '' @ toolName @ '': Input validation failed: '' @
            join '', '' (map formatIssue issues)
          = pre @ (join ''.'' (issue_path e) @ '': '' @ issue_message e) @ post)"
proof (intro conjI impI ballI)
  fix e
  assume r: "registeredTools toolName = Some tool" and i: "inputSchema tool arguments = Inl issues"
    and e: "e \<in> set (snd (callTool registeredTools availableTools client wsPath userContext
                          toolName arguments))"
  then show "\<not> isToolExecute e"
    by (auto simp: callTool_def tryExecuteTool_def catchToolError_def Let_def
             split: option.splits if_splits)
next
  assume "registeredTools toolName = Some tool" "inputSchema tool arguments = Inl issues"
    "authorizePasses userContext tool"
  then show "callTool registeredTools availableTools client wsPath userContext toolName arguments
          = (CallToolResult
               (''Error executing tool '' @ toolName @ '': Input validation failed: '' @
                join '', '' (map formatIssue issues)) True,
             [ConsoleErrorWith (''Error executing tool '' @ toolName @ '':'') (ZodError issues)])"
    by (auto simp: callTool_def tryExecuteTool_def catchToolError_def authorizePasses_def Let_def
             split: option.splits)
next
  fix e assume "e \<in> set issues"
  from formatIssue_in_message [OF this, of toolName]
  show "\<exists>pre post.
          ''Error executing tool '' @ toolName @ '': Input validation failed: '' @
            join '', '' (map formatIssue issues)
          = pre @ (join ''.'' (issue_path e) @ '': '' @ issue_message e) @ post"
    by simp
qed

theorem callTool_validation_failure_witness:
  "sqlCatalog ''execute_sql'' = Some executeSqlTool
   \<and> inputSchema executeSqlTool \<lparr>arg_sql = RawNumber 1, arg_read_only = RawString ''yes''\<rparr>
       = Inl [ZodIssue [''sql''] ''Expected string, received number'',
              ZodIssue [''read_only''] ''Expected boolean, received string'']
   \<and> authorizePasses (Some \<lparr>userId = ''u1'', email = None, role = ''service_role''\<rparr>) executeSqlTool
   \<and> callTool sqlCatalog sqlCatalog sampleClient ''/ws''
        (Some \<lparr>userId = ''u1'', email = None, role = ''service_role''\<rparr>) ''execute_sql''
        \<lparr>arg_sql = RawNumber 1, arg_read_only = RawString ''yes''\<rparr>
       = (CallToolResult
            ''Error executing tool execute_sql: Input validation failed: sql: Expected string, received number, read_only: Expected boolean, received string''
            True,
          [ConsoleErrorWith ''Error executing tool execute_sql:''
             (ZodError [ZodIssue [''sql''] ''Expected string, received number'',
                        ZodIssue [''read_only''] ''Expected boolean, received string''])])"
proof -
  have a: "sqlCatalog ''execute_sql'' = Some executeSqlTool"
    by (simp add: sqlCatalog_def)
  have b: "inputSchema executeSqlTool \<lparr>arg_sql = RawNumber 1, arg_read_only = RawString ''yes''\<rparr>
       = Inl [ZodIssue [''sql''] ''Expected string, received number'',
              ZodIssue [''read_only''] ''Expected boolean, received string'']"
    by (simp add: executeSqlTool_def ExecuteSqlInputSchema_def invalidType_def)
  have c: "authorizePasses (Some \<lparr>userId = ''u1'', email = None, role = ''service_role''\<rparr>) executeSqlTool"
    by (simp add: authorizePasses_def executeSqlTool_def canAccessTool_def ROLE_PRIVILEGE_MAP_def)
  from callTool_validation_failure
      [where registeredTools = sqlCatalog and availableTools = sqlCatalog
         and toolName = "''execute_sql''" and tool = executeSqlTool
         and client = sampleClient and wsPath = "''/ws''"
         and userContext = "Some \<lparr>userId = ''u1'', email = None, role = ''service_role''\<rparr>"
         and arguments = "\<lparr>arg_sql = RawNumber 1, arg_read_only = RawString ''yes''\<rparr>",
       OF a b] c
  have "callTool sqlCatalog sqlCatalog sampleClient ''/ws''
        (Some \<lparr>userId = ''u1'', email = None, role = ''service_role''\<rparr>) ''execute_sql''
        \<lparr>arg_sql = RawNumber 1, arg_read_only = RawString ''yes''\<rparr>
       = (CallToolResult
            ''Error executing tool execute_sql: Input validation failed: sql: Expected string, received number, read_only: Expected boolean, received string''
            True,
          [ConsoleErrorWith ''Error executing tool execute_sql:''
             (ZodError [ZodIssue [''sql''] ''Expected string, received number'',
                        ZodIssue [''read_only''] ''Expected boolean, received string''])])"
    by (simp add: formatIssue_def)
  with a b c show ?thesis by simp
qed

text \<open>
  A call of list_vector_indexes by a caller with role authenticated, on a client that
  returns one index: the answer is the text of that index, after the log line of the
  fallback chain and the call of the direct connection.
\<close>

lemma listVectorIndexes_call:
  "callTool vectorCatalog vectorCatalog vectorClient ''/ws''
     (Some \<lparr>userId = ''u7'', email = None, role = ''authenticated''\<rparr>)
     ''list_vector_indexes'' (Some [])
   = (CallToolResult
        (join [CHR 0x0A]
           [''['',
            ''  {'',
            ''    '' @ [CHR 0x22] @ ''index_name'' @ [CHR 0x22] @ '': '' @
              [CHR 0x22] @ ''items_embedding_idx'' @ [CHR 0x22] @ '','',
            ''    '' @ [CHR 0x22] @ ''table_name'' @ [CHR 0x22] @ '': '' @
              [CHR 0x22] @ ''items'' @ [CHR 0x22] @ '','',
            ''    '' @ [CHR 0x22] @ ''schema_name'' @ [CHR 0x22] @ '': '' @
              [CHR 0x22] @ ''public'' @ [CHR 0x22] @ '','',
            ''    '' @ [CHR 0x22] @ ''index_method'' @ [CHR 0x22] @ '': '' @
              [CHR 0x22] @ ''hnsw'' @ [CHR 0x22] @ '','',
            ''    '' @ [CHR 0x22] @ ''index_definition'' @ [CHR 0x22] @ '': '' @
              [CHR 0x22] @ ''CREATE INDEX items_embedding_idx ON public.items USING hnsw (embedding)'' @
              [CHR 0x22],
            ''  }'',
            '']'']) False,
      [ToolExecute ''list_vector_indexes'',
       ConsoleInfo ''Using direct database connection (bypassing JWT)...'',
       PgCall listVectorIndexesSql])"
  by (simp add: callTool_def vectorCatalog_def listVectorIndexesTool_def canAccessTool_def
      ROLE_PRIVILEGE_MAP_def tryExecuteTool_def ListVectorIndexesInputSchema_def
      listVectorIndexes_execute_def vectorClient_def executeSqlWithFallback_def
      handleSqlResponse_def ListVectorIndexesOutputSchema_def vectorIndexFields_def
      stringFieldIssues_def fieldValue_def enumerate_eq_zip rowsJson_def rowJson_def
      jsonQuote_def jsonEscape_def Let_def)

text \<open>
  C10. A registered tool whose descriptor omits \<open>privilegeLevel\<close> is handled by the
  privilege check of HTTP mode as a tool that requires regular, never as one that
  requires privileged: a caller with role anon is refused with the message that names
  the level regular, and every caller whose role is not anon (authenticated, or any role
  outside the table, which gets the policy of authenticated) passes the check: the call
  goes on to validate and execute, and with arguments that parse the execute function
  is invoked. The handler answers throughout as it does for the same descriptor with
  the level set to regular.
\<close>

theorem callTool_omitted_privilege:
  "registeredTools toolName = Some tool \<Longrightarrow> privilegeLevel tool = None \<Longrightarrow>
     callTool registeredTools availableTools client wsPath userContext toolName arguments
       = callTool (registeredTools(toolName \<mapsto> tool\<lparr>privilegeLevel := Some Regular\<rparr>))
           availableTools client wsPath userContext toolName arguments
   \<and> (role u = ''anon'' \<longrightarrow>
        callTool registeredTools availableTools client wsPath (Some u) toolName arguments
          = (McpError InvalidRequest
               (''Access denied: Tool '' @ [CHR 0x27] @ toolName @ [CHR 0x27] @
                '' requires '' @ [CHR 0x27] @ ''regular'' @ [CHR 0x27] @ '' privilege. '' @
                ''Your role '' @ [CHR 0x27] @ ''anon'' @ [CHR 0x27] @
                '' does not have sufficient permissions.''),
             [ConsoleError
                (''[SECURITY] Access denied: User '' @ emailOrUserId u @
                 '' (role: anon) attempted to access '' @ toolName @ '' (requires: regular)'')]))
   \<and> (role u \<noteq> ''anon'' \<longrightarrow>
        callTool registeredTools availableTools client wsPath (Some u) toolName arguments
          = tryExecuteTool client wsPath (Some u) tool toolName arguments
        \<and> (\<forall>parsedArgs. inputSchema tool arguments = Inr parsedArgs \<longrightarrow>
              ToolExecute toolName
                \<in> set (snd (callTool registeredTools availableTools client wsPath (Some u)
                               toolName arguments))))"
proof (intro conjI impI allI)
  assume r: "registeredTools toolName = Some tool" and p: "privilegeLevel tool = None"
  show "callTool registeredTools availableTools client wsPath userContext toolName arguments
       = callTool (registeredTools(toolName \<mapsto> tool\<lparr>privilegeLevel := Some Regular\<rparr>))
           availableTools client wsPath userContext toolName arguments"
    using r p
    by (auto simp: callTool_def tryExecuteTool_def Let_def
             split: option.splits prod.splits sum.splits)
next
  assume r: "registeredTools toolName = Some tool" and p: "privilegeLevel tool = None"
    and a: "role u = ''anon''"
  have "\<not> canAccessTool ''anon'' Regular"
    by (simp add: canAccessTool_def ROLE_PRIVILEGE_MAP_def)
  then show "callTool registeredTools availableTools client wsPath (Some u) toolName arguments
          = (McpError InvalidRequest
               (''Access denied: Tool '' @ [CHR 0x27] @ toolName @ [CHR 0x27] @
                '' requires '' @ [CHR 0x27] @ ''regular'' @ [CHR 0x27] @ '' privilege. '' @
                ''Your role '' @ [CHR 0x27] @ ''anon'' @ [CHR 0x27] @
                '' does not have sufficient permissions.''),
             [ConsoleError
                (''[SECURITY] Access denied: User '' @ emailOrUserId u @
                 '' (role: anon) attempted to access '' @ toolName @ '' (requires: regular)'')])"
    using r p a by (simp add: callTool_def accessDeniedMessage_def securityLogLine_def)
next
  assume r: "registeredTools toolName = Some tool" and p: "privilegeLevel tool = None"
    and a: "role u \<noteq> ''anon''"
  have "canAccessTool (role u) Regular"
    using a by (auto simp: canAccessTool_def ROLE_PRIVILEGE_MAP_def)
  then show c: "callTool registeredTools availableTools client wsPath (Some u) toolName arguments
          = tryExecuteTool client wsPath (Some u) tool toolName arguments"
    using r p by (simp add: callTool_def)
  fix parsedArgs
  assume "inputSchema tool arguments = Inr parsedArgs"
  then show "ToolExecute toolName
                \<in> set (snd (callTool registeredTools availableTools client wsPath (Some u)
                               toolName arguments))"
    unfolding c by (auto simp: tryExecuteTool_def Let_def split: prod.splits sum.splits)
qed

theorem callTool_omitted_privilege_witness:
  "vectorCatalog ''list_vector_indexes'' = Some listVectorIndexesTool
   \<and> privilegeLevel listVectorIndexesTool = None
   \<and> role \<lparr>userId = ''u7'', email = None, role = ''authenticated''\<rparr> \<noteq> ''anon''
   \<and> inputSchema listVectorIndexesTool (Some []) = Inr ()
   \<and> callTool vectorCatalog vectorCatalog vectorClient ''/ws''
        (Some \<lparr>userId = ''u7'', email = None, role = ''authenticated''\<rparr>)
        ''list_vector_indexes'' (Some [])
       = tryExecuteTool vectorClient ''/ws''
           (Some \<lparr>userId = ''u7'', email = None, role = ''authenticated''\<rparr>)
           listVectorIndexesTool ''list_vector_indexes'' (Some [])
   \<and> ToolExecute ''list_vector_indexes''
        \<in> set (snd (callTool vectorCatalog vectorCatalog vectorClient ''/ws''
                      (Some \<lparr>userId = ''u7'', email = None, role = ''authenticated''\<rparr>)
                      ''list_vector_indexes'' (Some [])))
   \<and> snd (callTool vectorCatalog vectorCatalog vectorClient ''/ws''
              (Some \<lparr>userId = ''u7'', email = None, role = ''authenticated''\<rparr>)
              ''list_vector_indexes'' (Some []))
       = [ToolExecute ''list_vector_indexes'',
          ConsoleInfo ''Using direct database connection (bypassing JWT)...'',
          PgCall listVectorIndexesSql]"
proof -
  let ?u = "\<lparr>userId = ''u7'', email = None, role = ''authenticated''\<rparr>"
  have a: "vectorCatalog ''list_vector_indexes'' = Some listVectorIndexesTool"
    by (simp add: vectorCatalog_def)
  have b: "privilegeLevel listVectorIndexesTool = None"
    by (simp add: listVectorIndexesTool_def)
  have c: "role ?u \<noteq> ''anon''"
    by simp
  have d: "inputSchema listVectorIndexesTool (Some []) = Inr ()"
    by (simp add: listVectorIndexesTool_def ListVectorIndexesInputSchema_def)
  from callTool_omitted_privilege
    [where registeredTools = vectorCatalog and availableTools = vectorCatalog
       and toolName = "''list_vector_indexes''" and tool = listVectorIndexesTool
       and u = ?u and userContext = None
       and client = vectorClient and wsPath = "''/ws''" and arguments = "Some []", OF a b] c d
  have "callTool vectorCatalog vectorCatalog vectorClient ''/ws'' (Some ?u)
          ''list_vector_indexes'' (Some [])
        = tryExecuteTool vectorClient ''/ws'' (Some ?u) listVectorIndexesTool
            ''list_vector_indexes'' (Some [])
      \<and> ToolExecute ''list_vector_indexes''
          \<in> set (snd (callTool vectorCatalog vectorCatalog vectorClient ''/ws'' (Some ?u)
                        ''list_vector_indexes'' (Some [])))"
    by blast
  moreover have "snd (callTool vectorCatalog vectorCatalog vectorClient ''/ws'' (Some ?u)
              ''list_vector_indexes'' (Some []))
       = [ToolExecute ''list_vector_indexes'',
          ConsoleInfo ''Using direct database connection (bypassing JWT)...'',
          PgCall listVectorIndexesSql]"
    by (simp add: listVectorIndexes_call)
  ultimately show ?thesis using a b c d by blast
qed

section \<open>Claims about token verification\<close>

text \<open>
  C4. A request whose token verifies against the configured secret but whose exp claim
  is in the past should be rejected with the message "Token has expired". The middleware
  tests \<open>instanceof jwt.JsonWebTokenError\<close> first, and an expired token's error is an
  instance of that class, so the answer is the invalid-token one, "Invalid token: jwt
  expired"; the branch with "Token has expired" is never taken, whatever the verifier
  returns. A token signed with another secret is rejected with 401 whatever its claims.
\<close>

theorem createAuthMiddleware_expired_token:
  "createAuthMiddleware (jwtVerify sampleDecode 4600) ''jwt-secret'' (Some ''Bearer expired.jwt.token'')
     = (AuthResponse 401 ''Unauthorized'' ''Invalid token: jwt expired'', [])
   \<and> createAuthMiddleware (jwtVerify sampleDecode 4600) ''jwt-secret'' (Some ''Bearer forged.jwt.token'')
     = (AuthResponse 401 ''Unauthorized'' ''Invalid token: invalid signature'', [])
   \<and> (\<forall>verify secret authHeader.
         fst (createAuthMiddleware verify secret authHeader)
           \<noteq> AuthResponse 401 ''Unauthorized'' ''Token has expired'')"
proof (intro conjI allI)
  show "createAuthMiddleware (jwtVerify sampleDecode 4600) ''jwt-secret'' (Some ''Bearer expired.jwt.token'')
     = (AuthResponse 401 ''Unauthorized'' ''Invalid token: jwt expired'', [])"
    by (simp add: createAuthMiddleware_def jwtVerify_def sampleDecode_def orElse_def startsWith_def)
  show "createAuthMiddleware (jwtVerify sampleDecode 4600) ''jwt-secret'' (Some ''Bearer forged.jwt.token'')
     = (AuthResponse 401 ''Unauthorized'' ''Invalid token: invalid signature'', [])"
    by (simp add: createAuthMiddleware_def jwtVerify_def sampleDecode_def orElse_def startsWith_def)
next
  fix verify secret authHeader
  have dead: "\<And>err. instanceofTokenExpiredError err \<Longrightarrow> instanceofJsonWebTokenError err"
    by (case_tac err) simp_all
  show "fst (createAuthMiddleware verify secret authHeader)
           \<noteq> AuthResponse 401 ''Unauthorized'' ''Token has expired''"
    by (auto simp: createAuthMiddleware_def Let_def dead split: sum.splits)
qed

section \<open>Claims about the HTTP front-end\<close>

text \<open>Facts about single requests and about runs of requests.\<close>

lemma health_route: "routeMatches ''/health'' ''/health''"
  by (simp add: routeMatches_def lowerChar_def)

lemma health_route_slash: "routeMatches ''/health'' ''/health/''"
  by code_simp

lemma health_route_upper: "routeMatches ''/health'' ''/HEALTH''"
  by code_simp

lemma sample_key: "getClientKey (sampleRequest m p og a) = ''10.0.0.1''"
  by (simp add: getClientKey_def sampleRequest_def orElse_def)

lemma sample_fields:
  "requestMethod (sampleRequest m p og a) = m" "path (sampleRequest m p og a) = p"
  "origin (sampleRequest m p og a) = og" "authorization (sampleRequest m p og a) = a"
  "bodyParses (sampleRequest m p og a)"
  by (simp_all add: sampleRequest_def)

lemma decimalInt_digits: "decimalInt 0 = ''0''" "decimalInt 1 = ''1''" "decimalInt 2 = ''2''"
  by code_simp+

lemma handleRequest_new_window:
  assumes "bodyParses req" "path req \<noteq> ''/health''" "getClientKey req = k"
    and "counts k = None \<or> (\<exists>e. counts k = Some e \<and> resetTime e \<le> now)"
  shows "handleRequest opts verify req now now' counts
       = (corsAndRoutes opts verify req
            (securityHeaders @ rateLimitHeaders
               \<lparr>allowed = True, remaining = maxRequestsOf opts - 1,
                statusResetTime = now + windowMsOf opts, limit = maxRequestsOf opts\<rparr>),
          counts(k \<mapsto> \<lparr>count = 1, resetTime = now + windowMsOf opts\<rparr>))"
  using assms by (auto simp: handleRequest_def checkRateLimit_def Let_def)

lemma handleRequest_admit:
  assumes "bodyParses req" "path req \<noteq> ''/health''" "getClientKey req = k"
    and "counts k = Some e" "now < resetTime e" "count e < maxRequestsOf opts"
  shows "handleRequest opts verify req now now' counts
       = (corsAndRoutes opts verify req
            (securityHeaders @ rateLimitHeaders
               \<lparr>allowed = True, remaining = maxRequestsOf opts - (count e + 1),
                statusResetTime = resetTime e, limit = maxRequestsOf opts\<rparr>),
          counts(k \<mapsto> e\<lparr>count := count e + 1\<rparr>))"
  using assms by (auto simp: handleRequest_def checkRateLimit_def Let_def)

lemma handleRequest_reject:
  assumes "bodyParses req" "path req \<noteq> ''/health''" "getClientKey req = k"
    and "counts k = Some e" "now < resetTime e" "maxRequestsOf opts \<le> count e"
  shows "handleRequest opts verify req now now' counts
       = (tooManyRequests
            \<lparr>allowed = False, remaining = 0, statusResetTime = resetTime e,
             limit = maxRequestsOf opts\<rparr>
            (retryAfterSeconds (resetTime e) now'),
          counts)"
  using assms by (auto simp: handleRequest_def checkRateLimit_def tooManyRequests_def Let_def)

lemma createAuthMiddleware_status:
  "fst (createAuthMiddleware verify secret authHeader) = AuthResponse st err msg
     \<Longrightarrow> st = 401 \<or> st = 500"
  by (auto simp: createAuthMiddleware_def Let_def split: if_splits sum.splits)

lemma corsAndRoutes_not_429: "\<not> isTooManyRequests (corsAndRoutes opts verify req hdrs)"
proof -
  have "\<not> isTooManyRequests (routes opts verify req h)" for h
  proof (cases "createAuthMiddleware verify (jwtSecret opts) (authorization req)")
    case (Pair a effects)
    show ?thesis
    proof (cases a)
      case (AuthResponse st err msg)
      with Pair createAuthMiddleware_status [of verify "jwtSecret opts" "authorization req" st err msg]
      have "st = 401 \<or> st = 500" by simp
      then show ?thesis
        using Pair AuthResponse by (auto simp: routes_def isTooManyRequests_def)
    next
      case (AuthNext u)
      then show ?thesis
        using Pair by (auto simp: routes_def isTooManyRequests_def)
    qed
  qed
  then show ?thesis
    by (auto simp: corsAndRoutes_def isTooManyRequests_def)
qed

lemma handleRequest_frame:
  assumes "\<not> (bodyParses req \<and> path req \<noteq> ''/health'' \<and> getClientKey req = k)"
  shows "snd (handleRequest opts verify req now now' counts) k = counts k"
  using assms
  by (auto simp: handleRequest_def checkRateLimit_def Let_def split: option.splits)

lemma cleanup_frame:
  assumes "counts k = Some e" "now < resetTime e"
  shows "cleanupExpiredRateLimitEntries now counts k = Some e"
  using assms by (simp add: cleanupExpiredRateLimitEntries_def)

lemma serve_append:
  "serve opts verify (xs @ ys) counts
     = (fst (serve opts verify xs counts) @
          fst (serve opts verify ys (snd (serve opts verify xs counts))),
        snd (serve opts verify ys (snd (serve opts verify xs counts))))"
  by (induction xs arbitrary: counts) simp_all

text \<open>
  Inside a live window of the key, with room for all the requests of the key that are
  to come: each of them passes, and the count grows by their number.
\<close>

lemma serve_admits:
  assumes "counts k = Some \<lparr>count = c, resetTime = R\<rparr>"
    and "c + int (length (filter (subjectTo k) evs)) \<le> maxRequestsOf opts"
    and "\<forall>e \<in> set evs. withinWindow k t0 (R - t0) e"
  shows "snd (serve opts verify evs counts) k
           = Some \<lparr>count = c + int (length (filter (subjectTo k) evs)), resetTime = R\<rparr>
       \<and> list_all2 (\<lambda>e out. subjectTo k e \<longrightarrow> passesRateLimit opts verify e out)
            evs (fst (serve opts verify evs counts))"
  using assms
proof (induction evs arbitrary: counts c)
  case Nil
  then show ?case by simp
next
  case (Cons ev evs)
  have rest: "\<forall>e \<in> set evs. withinWindow k t0 (R - t0) e"
    using Cons.prems(3) by simp
  show ?case
  proof (cases ev)
    case (Sweep now)
    from Cons.prems(3) Sweep have "now < R" by simp
    then have k': "snd (step opts verify ev counts) k = Some \<lparr>count = c, resetTime = R\<rparr>"
      using Cons.prems(1) Sweep by (simp add: cleanup_frame)
    have len: "c + int (length (filter (subjectTo k) evs)) \<le> maxRequestsOf opts"
      using Cons.prems(2) Sweep by simp
    have ih: "snd (serve opts verify evs (snd (step opts verify ev counts))) k
           = Some \<lparr>count = c + int (length (filter (subjectTo k) evs)), resetTime = R\<rparr>
       \<and> list_all2 (\<lambda>e out. subjectTo k e \<longrightarrow> passesRateLimit opts verify e out)
            evs (fst (serve opts verify evs (snd (step opts verify ev counts))))"
      using k' len rest by (rule Cons.IH)
    then show ?thesis using Sweep by simp
  next
    case (Inbound req now now')
    show ?thesis
    proof (cases "subjectTo k ev")
      case False
      then have k': "snd (step opts verify ev counts) k = Some \<lparr>count = c, resetTime = R\<rparr>"
        using Cons.prems(1) Inbound by (simp add: handleRequest_frame)
      have len: "c + int (length (filter (subjectTo k) evs)) \<le> maxRequestsOf opts"
        using Cons.prems(2) False by simp
      have ih: "snd (serve opts verify evs (snd (step opts verify ev counts))) k
           = Some \<lparr>count = c + int (length (filter (subjectTo k) evs)), resetTime = R\<rparr>
       \<and> list_all2 (\<lambda>e out. subjectTo k e \<longrightarrow> passesRateLimit opts verify e out)
            evs (fst (serve opts verify evs (snd (step opts verify ev counts))))"
        using k' len rest by (rule Cons.IH)
      then show ?thesis using False by simp
    next
      case True
      then have r: "bodyParses req" "path req \<noteq> ''/health''" "getClientKey req = k"
        using Inbound by simp_all
      from Cons.prems(3) True Inbound have now: "now < R" by simp
      from Cons.prems(2) True have c: "c < maxRequestsOf opts" by simp
      define e where "e = \<lparr>count = c, resetTime = R\<rparr>"
      define counts' where "counts' = counts(k \<mapsto> e\<lparr>count := count e + 1\<rparr>)"
      define st where "st = \<lparr>allowed = True, remaining = maxRequestsOf opts - (count e + 1),
                statusResetTime = resetTime e, limit = maxRequestsOf opts\<rparr>"
      have ce: "counts k = Some e" "now < resetTime e" "count e < maxRequestsOf opts"
        using Cons.prems(1) now c by (simp_all add: e_def)
      have hr: "handleRequest opts verify req now now' counts
           = (corsAndRoutes opts verify req (securityHeaders @ rateLimitHeaders st), counts')"
        unfolding st_def counts'_def
        using r ce by (rule handleRequest_admit)
      have k': "counts' k = Some \<lparr>count = c + 1, resetTime = R\<rparr>"
        by (simp add: counts'_def e_def)
      have len: "(c + 1) + int (length (filter (subjectTo k) evs)) \<le> maxRequestsOf opts"
        using Cons.prems(2) True by simp
      have ih: "snd (serve opts verify evs counts') k
           = Some \<lparr>count = c + 1 + int (length (filter (subjectTo k) evs)), resetTime = R\<rparr>
       \<and> list_all2 (\<lambda>e out. subjectTo k e \<longrightarrow> passesRateLimit opts verify e out)
            evs (fst (serve opts verify evs counts'))"
        using k' len rest by (rule Cons.IH)
      have "allowed st" by (simp add: st_def)
      then have p: "passesRateLimit opts verify ev
             (Some (corsAndRoutes opts verify req (securityHeaders @ rateLimitHeaders st)))"
        unfolding Inbound by (auto simp: corsAndRoutes_not_429)
      show ?thesis
        using ih p True by (simp add: Inbound hr add.assoc)
    qed
  qed
qed

lemma ceilSeconds_mono: "a \<le> b \<Longrightarrow> ceilSeconds a \<le> ceilSeconds b"
  unfolding ceilSeconds_def by (simp add: zdiv_mono1)


lemma retryAfterSeconds_bounds:
  assumes "t0 \<le> now'"
  shows "1 \<le> retryAfterSeconds (t0 + w) now'
       \<and> retryAfterSeconds (t0 + w) now' \<le> max 1 (ceilSeconds w)"
proof -
  have "t0 + w - now' \<le> w" using assms by simp
  then have "ceilSeconds (t0 + w - now') \<le> ceilSeconds w" by (rule ceilSeconds_mono)
  then show ?thesis by (simp add: retryAfterSeconds_def)
qed

text \<open>
  C7, as stated, fails: with a window of 1500 ms and a maximum of 2, the third request of
  a window is answered 429 with a retry-after of 2 seconds, which is more than the
  window length.
\<close>

theorem retry_after_exceeds_window:
  "fst (serve sampleOptions (jwtVerify sampleDecode 0)
          [Inbound (sampleRequest ''POST'' ''/mcp'' None None) 0 0,
           Inbound (sampleRequest ''POST'' ''/mcp'' None None) 0 0,
           Inbound (sampleRequest ''POST'' ''/mcp'' None None) 0 0] Map.empty) ! 2
     = Some (Responded
         \<lparr>status = 429,
          headers = securityHeaders @
            [(''X-RateLimit-Limit'', ''2''), (''X-RateLimit-Remaining'', ''0''),
             (''X-RateLimit-Reset'', ''2''), (''Retry-After'', ''2'')],
          body = ErrorBody ''Too Many Requests''
                   ''Rate limit exceeded. Please try again later.'' (Some 2)\<rparr>, [])
   \<and> windowMsOf sampleOptions = 1500
   \<and> \<not> (2 * 1000 \<le> windowMsOf sampleOptions)"
  by (simp add: handleRequest_def sample_key sample_fields checkRateLimit_def
      tooManyRequests_def rateLimitHeaders_def decimalInt_digits
      retryAfterSeconds_def ceilSeconds_def sampleOptions_def windowMsOf_def maxRequestsOf_def
      Let_def)

text \<open>
  C7, amended. For every client key, window length W (in ms) and maximum N \<ge> 1: when
  the key has no live window at time t0 and N + 1 requests of that key arrive within the
  window that the first of them starts at t0 (with any requests of other keys, requests
  to /health and sweeps in between), the first N pass the rate limit stage and the
  (N+1)th is answered 429 and does not go on to the routes (it does not reach the
  dispatcher); its retry-after value, in seconds, is at least 1 and at most W rounded up
  to whole seconds, that is max(1, ceil(W / 1000)).
\<close>

theorem rate_limit_window:
  assumes N: "maxRequestsOf opts = int N" "1 \<le> N"
    and fresh: "counts k = None \<or> (\<exists>e. counts k = Some e \<and> resetTime e \<le> t0)"
    and first: "first = Inbound req t0 t0'" "subjectTo k first"
    and final: "subjectTo k final"
    and len: "length (filter (subjectTo k) middle) = N - 1"
    and evs: "\<forall>e \<in> set (middle @ [final]). withinWindow k t0 (windowMsOf opts) e"
  shows "\<exists>outs r.
           fst (serve opts verify (first # middle @ [final]) counts)
             = outs @
               [Some (Responded
                  \<lparr>status = 429,
                   headers = securityHeaders @
                     [(''X-RateLimit-Limit'', decimalInt (int N)),
                      (''X-RateLimit-Remaining'', decimalInt 0),
                      (''X-RateLimit-Reset'', decimalInt (ceilSeconds (t0 + windowMsOf opts))),
                      (''Retry-After'', decimalInt r)],
                   body = ErrorBody ''Too Many Requests''
                            ''Rate limit exceeded. Please try again later.'' (Some r)\<rparr>, [])]
         \<and> list_all2 (\<lambda>e out. subjectTo k e \<longrightarrow> passesRateLimit opts verify e out)
              (first # middle) outs
         \<and> 1 \<le> r \<and> r \<le> max 1 (ceilSeconds (windowMsOf opts))"
proof -
  let ?W = "windowMsOf opts"
  from final obtain reqL nowL nowL' where l: "final = Inbound reqL nowL nowL'"
    by (cases final) auto
  from first have rf: "bodyParses req" "path req \<noteq> ''/health''" "getClientKey req = k"
    by simp_all
  from final l have rl: "bodyParses reqL" "path reqL \<noteq> ''/health''" "getClientKey reqL = k"
    by simp_all
  from evs l final have tl: "t0 \<le> nowL" "nowL < t0 + ?W" "nowL \<le> nowL'"
    by simp_all
  define st1 where "st1 = \<lparr>allowed = True, remaining = maxRequestsOf opts - 1,
                statusResetTime = t0 + ?W, limit = maxRequestsOf opts\<rparr>"
  define counts1 where "counts1 = counts(k \<mapsto> \<lparr>count = 1, resetTime = t0 + ?W\<rparr>)"
  define out1 where "out1 = corsAndRoutes opts verify req (securityHeaders @ rateLimitHeaders st1)"
  have hr1: "handleRequest opts verify req t0 t0' counts = (out1, counts1)"
    unfolding out1_def st1_def counts1_def
    using rf fresh by (rule handleRequest_new_window)
  have step1: "step opts verify first counts = (Some out1, counts1)"
    by (simp add: first(1) hr1)
  have "allowed st1" by (simp add: st1_def)
  then have p1: "passesRateLimit opts verify first (Some out1)"
    unfolding first(1) out1_def by (auto simp: corsAndRoutes_not_429)
  have k1: "counts1 k = Some \<lparr>count = 1, resetTime = t0 + ?W\<rparr>"
    by (simp add: counts1_def)
  have lenm: "1 + int (length (filter (subjectTo k) middle)) \<le> maxRequestsOf opts"
    using N len by simp
  have mid: "\<forall>e \<in> set middle. withinWindow k t0 (t0 + ?W - t0) e"
    using evs by simp
  define outsM where "outsM = fst (serve opts verify middle counts1)"
  define countsM where "countsM = snd (serve opts verify middle counts1)"
  have m: "countsM k
             = Some \<lparr>count = 1 + int (length (filter (subjectTo k) middle)), resetTime = t0 + ?W\<rparr>
       \<and> list_all2 (\<lambda>e out. subjectTo k e \<longrightarrow> passesRateLimit opts verify e out) middle outsM"
    unfolding outsM_def countsM_def
    using k1 lenm mid by (rule serve_admits)
  define eM where "eM = \<lparr>count = 1 + int (length (filter (subjectTo k) middle)),
                          resetTime = t0 + ?W\<rparr>"
  have ceM: "countsM k = Some eM" "nowL < resetTime eM" "maxRequestsOf opts \<le> count eM"
    using m tl(2) N len by (simp_all add: eM_def)
  have hrL: "handleRequest opts verify reqL nowL nowL' countsM
       = (tooManyRequests
            \<lparr>allowed = False, remaining = 0, statusResetTime = resetTime eM,
             limit = maxRequestsOf opts\<rparr>
            (retryAfterSeconds (resetTime eM) nowL'),
          countsM)"
    using rl ceM by (rule handleRequest_reject)
  define r where "r = retryAfterSeconds (t0 + ?W) nowL'"
  have "t0 \<le> nowL'" using tl(1,3) by simp
  then have rb: "1 \<le> r \<and> r \<le> max 1 (ceilSeconds ?W)"
    unfolding r_def by (rule retryAfterSeconds_bounds)
  have "fst (serve opts verify (first # middle @ [final]) counts)
      = (Some out1 # outsM) @ [Some (tooManyRequests
                         \<lparr>allowed = False, remaining = 0,
                          statusResetTime = t0 + ?W, limit = int N\<rparr> r)]"
    by (simp add: step1 serve_append l hrL outsM_def [symmetric] countsM_def [symmetric]
          eM_def r_def N(1))
  then have outs: "fst (serve opts verify (first # middle @ [final]) counts)
      = (Some out1 # outsM) @
        [Some (Responded
           \<lparr>status = 429,
            headers = securityHeaders @
              [(''X-RateLimit-Limit'', decimalInt (int N)),
               (''X-RateLimit-Remaining'', decimalInt 0),
               (''X-RateLimit-Reset'', decimalInt (ceilSeconds (t0 + ?W))),
               (''Retry-After'', decimalInt r)],
            body = ErrorBody ''Too Many Requests''
                     ''Rate limit exceeded. Please try again later.'' (Some r)\<rparr>, [])]"
    by (simp add: tooManyRequests_def rateLimitHeaders_def)
  have "list_all2 (\<lambda>e out. subjectTo k e \<longrightarrow> passesRateLimit opts verify e out)
          (first # middle) (Some out1 # outsM)"
    using p1 m by simp
  with outs rb show ?thesis by blast
qed

theorem rate_limit_window_witness:
  "maxRequestsOf sampleOptions = int 2 \<and> (1::nat) \<le> 2
   \<and> (Map.empty :: requestCounts) ''10.0.0.1'' = None
   \<and> subjectTo ''10.0.0.1'' (Inbound (sampleRequest ''POST'' ''/mcp'' None None) 0 0)
   \<and> subjectTo ''10.0.0.1'' (Inbound (sampleRequest ''POST'' ''/mcp'' None None) 200 250)
   \<and> length (filter (subjectTo ''10.0.0.1'')
         [Inbound (sampleRequest ''GET'' ''/health'' None None) 50 50,
          Inbound (sampleRequest ''POST'' ''/mcp'' None None) 100 100,
          Sweep 150]) = 2 - 1
   \<and> withinWindow ''10.0.0.1'' 0 (windowMsOf sampleOptions)
         (Inbound (sampleRequest ''GET'' ''/health'' None None) 50 50)
   \<and> withinWindow ''10.0.0.1'' 0 (windowMsOf sampleOptions)
         (Inbound (sampleRequest ''POST'' ''/mcp'' None None) 100 100)
   \<and> withinWindow ''10.0.0.1'' 0 (windowMsOf sampleOptions) (Sweep 150)
   \<and> withinWindow ''10.0.0.1'' 0 (windowMsOf sampleOptions)
         (Inbound (sampleRequest ''POST'' ''/mcp'' None None) 200 250)
   \<and> (\<exists>outs r.
         fst (serve sampleOptions (jwtVerify sampleDecode 0)
                (Inbound (sampleRequest ''POST'' ''/mcp'' None None) 0 0 #
                 [Inbound (sampleRequest ''GET'' ''/health'' None None) 50 50,
                  Inbound (sampleRequest ''POST'' ''/mcp'' None None) 100 100,
                  Sweep 150] @
                 [Inbound (sampleRequest ''POST'' ''/mcp'' None None) 200 250]) Map.empty)
           = outs @
             [Some (Responded
                \<lparr>status = 429,
                 headers = securityHeaders @
                   [(''X-RateLimit-Limit'', decimalInt (int 2)),
                    (''X-RateLimit-Remaining'', decimalInt 0),
                    (''X-RateLimit-Reset'',
                       decimalInt (ceilSeconds (0 + windowMsOf sampleOptions))),
                    (''Retry-After'', decimalInt r)],
                 body = ErrorBody ''Too Many Requests''
                          ''Rate limit exceeded. Please try again later.'' (Some r)\<rparr>, [])]
         \<and> list_all2 (\<lambda>e out. subjectTo ''10.0.0.1'' e \<longrightarrow>
                         passesRateLimit sampleOptions (jwtVerify sampleDecode 0) e out)
               (Inbound (sampleRequest ''POST'' ''/mcp'' None None) 0 0 #
                [Inbound (sampleRequest ''GET'' ''/health'' None None) 50 50,
                 Inbound (sampleRequest ''POST'' ''/mcp'' None None) 100 100,
                 Sweep 150]) outs
         \<and> 1 \<le> r \<and> r \<le> max 1 (ceilSeconds (windowMsOf sampleOptions)))"
proof -
  let ?mcp = "sampleRequest ''POST'' ''/mcp'' None None"
  let ?health = "sampleRequest ''GET'' ''/health'' None None"
  let ?middle = "[Inbound ?health 50 50, Inbound ?mcp 100 100, Sweep 150]"
  have a: "maxRequestsOf sampleOptions = int 2" and b: "(1::nat) \<le> 2"
    by (simp_all add: maxRequestsOf_def sampleOptions_def)
  have c: "(Map.empty :: requestCounts) ''10.0.0.1'' = None
           \<or> (\<exists>e. (Map.empty :: requestCounts) ''10.0.0.1'' = Some e \<and> resetTime e \<le> 0)"
    by simp
  have d: "Inbound ?mcp 0 0 = Inbound ?mcp 0 0" by simp
  have e: "subjectTo ''10.0.0.1'' (Inbound ?mcp 0 0)"
    and f: "subjectTo ''10.0.0.1'' (Inbound ?mcp 200 250)"
    by (simp_all add: sample_key) (simp_all add: sampleRequest_def)
  have g: "length (filter (subjectTo ''10.0.0.1'') ?middle) = 2 - 1"
    by (simp add: sample_key) (simp add: sampleRequest_def)
  have w: "withinWindow ''10.0.0.1'' 0 (windowMsOf sampleOptions) (Inbound ?health 50 50)"
    "withinWindow ''10.0.0.1'' 0 (windowMsOf sampleOptions) (Inbound ?mcp 100 100)"
    "withinWindow ''10.0.0.1'' 0 (windowMsOf sampleOptions) (Sweep 150)"
    "withinWindow ''10.0.0.1'' 0 (windowMsOf sampleOptions) (Inbound ?mcp 200 250)"
    by (simp_all add: windowMsOf_def sampleOptions_def)
  then have h: "\<forall>e \<in> set (?middle @ [Inbound ?mcp 200 250]).
                  withinWindow ''10.0.0.1'' 0 (windowMsOf sampleOptions) e"
    by simp
  from rate_limit_window [where verify = "jwtVerify sampleDecode 0" and counts = Map.empty,
      OF a b c d e f g h] a b e f g w
  show ?thesis by simp
qed

text \<open>
  The exact path /health: a GET request whose body the parser accepts and whose Origin
  header is absent or allowed is answered with the healthy status whatever its
  Authorization header and whatever the rate limit map holds, and the map is left as it
  was. The CORS stage applies to the path as to every other.
\<close>

lemma handleRequest_health:
  "path req = ''/health'' \<Longrightarrow> requestMethod req = ''GET'' \<Longrightarrow> bodyParses req \<Longrightarrow>
   isOriginAllowed opts (origin req) \<Longrightarrow>
   handleRequest opts verify req now now' counts
     = ((Responded \<lparr>status = 200, headers = securityHeaders @ corsHeaders (origin req),
                    body = HealthyBody\<rparr>, []), counts)"
  using health_route by (simp add: handleRequest_def corsAndRoutes_def routes_def)

lemma handleRequest_health_origin:
  "handleRequest sampleOptions (jwtVerify sampleDecode 0)
     (sampleRequest ''GET'' ''/health'' (Some ''http://evil.example'') None) 0 0 Map.empty
   = ((Responded \<lparr>status = 403, headers = securityHeaders,
                  body = ErrorBody ''Forbidden'' ''Origin not allowed by CORS policy'' None\<rparr>, []),
      Map.empty)"
  by (simp add: handleRequest_def corsAndRoutes_def sampleRequest_def sampleOptions_def
      isOriginAllowed_def allowedOriginsOf_def orElse_def endsWith_def startsWith_def
      decimal.simps)

text \<open>
  C9. Every request to the health endpoint is to be answered with the healthy status
  without rate limiting, also when the quota of the caller is used up; the limiter says
  so itself ("Skip rate limiting for health checks"). The limiter skips a request only
  when its path is the exact string /health, while the health route also serves /health/
  and /HEALTH (Express matches a route without regard to case and to one trailing
  slash). A GET request to /health/ or /HEALTH from a client whose quota is used up is
  therefore answered 429 although the route would answer it with the healthy status,
  and when the quota is not used up the request is counted against it. The same client
  gets the healthy status at the exact path /health, with no Authorization header.
\<close>

theorem health_route_rate_limited_on_other_spelling:
  "routes sampleOptions (jwtVerify sampleDecode 0)
     (sampleRequest ''GET'' ''/health/'' None None) []
     = (Responded \<lparr>status = 200, headers = [], body = HealthyBody\<rparr>, [])
   \<and> routes sampleOptions (jwtVerify sampleDecode 0)
     (sampleRequest ''GET'' ''/HEALTH'' None None) []
     = (Responded \<lparr>status = 200, headers = [], body = HealthyBody\<rparr>, [])
   \<and> handleRequest sampleOptions (jwtVerify sampleDecode 0)
     (sampleRequest ''GET'' ''/health/'' None None) 100 100 exhausted
     = ((Responded
          \<lparr>status = 429,
           headers = securityHeaders @
             [(''X-RateLimit-Limit'', ''2''), (''X-RateLimit-Remaining'', ''0''),
              (''X-RateLimit-Reset'', ''2''), (''Retry-After'', ''2'')],
           body = ErrorBody ''Too Many Requests''
                    ''Rate limit exceeded. Please try again later.'' (Some 2)\<rparr>, []),
        exhausted)
   \<and> handleRequest sampleOptions (jwtVerify sampleDecode 0)
     (sampleRequest ''GET'' ''/HEALTH'' None None) 100 100 exhausted
     = ((Responded
          \<lparr>status = 429,
           headers = securityHeaders @
             [(''X-RateLimit-Limit'', ''2''), (''X-RateLimit-Remaining'', ''0''),
              (''X-RateLimit-Reset'', ''2''), (''Retry-After'', ''2'')],
           body = ErrorBody ''Too Many Requests''
                    ''Rate limit exceeded. Please try again later.'' (Some 2)\<rparr>, []),
        exhausted)
   \<and> snd (handleRequest sampleOptions (jwtVerify sampleDecode 0)
          (sampleRequest ''GET'' ''/health/'' None None) 100 100 Map.empty) ''10.0.0.1''
     = Some \<lparr>count = 1, resetTime = 1600\<rparr>
   \<and> handleRequest sampleOptions (jwtVerify sampleDecode 0)
     (sampleRequest ''GET'' ''/health'' None None) 100 100 exhausted
     = ((Responded \<lparr>status = 200, headers = securityHeaders @ corsHeaders None,
                    body = HealthyBody\<rparr>, []), exhausted)"
proof (intro conjI)
  show "routes sampleOptions (jwtVerify sampleDecode 0)
     (sampleRequest ''GET'' ''/health/'' None None) []
     = (Responded \<lparr>status = 200, headers = [], body = HealthyBody\<rparr>, [])"
    using health_route_slash by (simp add: routes_def sampleRequest_def)
  show "routes sampleOptions (jwtVerify sampleDecode 0)
     (sampleRequest ''GET'' ''/HEALTH'' None None) []
     = (Responded \<lparr>status = 200, headers = [], body = HealthyBody\<rparr>, [])"
    using health_route_upper by (simp add: routes_def sampleRequest_def)
  show "handleRequest sampleOptions (jwtVerify sampleDecode 0)
     (sampleRequest ''GET'' ''/health/'' None None) 100 100 exhausted
     = ((Responded
          \<lparr>status = 429,
           headers = securityHeaders @
             [(''X-RateLimit-Limit'', ''2''), (''X-RateLimit-Remaining'', ''0''),
              (''X-RateLimit-Reset'', ''2''), (''Retry-After'', ''2'')],
           body = ErrorBody ''Too Many Requests''
                    ''Rate limit exceeded. Please try again later.'' (Some 2)\<rparr>, []),
        exhausted)"
    by (simp add: handleRequest_def sample_key sample_fields checkRateLimit_def
        tooManyRequests_def rateLimitHeaders_def decimalInt_digits exhausted_def
        retryAfterSeconds_def ceilSeconds_def sampleOptions_def windowMsOf_def
        maxRequestsOf_def Let_def)
  show "handleRequest sampleOptions (jwtVerify sampleDecode 0)
     (sampleRequest ''GET'' ''/HEALTH'' None None) 100 100 exhausted
     = ((Responded
          \<lparr>status = 429,
           headers = securityHeaders @
             [(''X-RateLimit-Limit'', ''2''), (''X-RateLimit-Remaining'', ''0''),
              (''X-RateLimit-Reset'', ''2''), (''Retry-After'', ''2'')],
           body = ErrorBody ''Too Many Requests''
                    ''Rate limit exceeded. Please try again later.'' (Some 2)\<rparr>, []),
        exhausted)"
    by (simp add: handleRequest_def sample_key sample_fields checkRateLimit_def
        tooManyRequests_def rateLimitHeaders_def decimalInt_digits exhausted_def
        retryAfterSeconds_def ceilSeconds_def sampleOptions_def windowMsOf_def
        maxRequestsOf_def Let_def)
  show "snd (handleRequest sampleOptions (jwtVerify sampleDecode 0)
          (sampleRequest ''GET'' ''/health/'' None None) 100 100 Map.empty) ''10.0.0.1''
     = Some \<lparr>count = 1, resetTime = 1600\<rparr>"
    by (simp add: handleRequest_def sample_key sample_fields checkRateLimit_def
        sampleOptions_def windowMsOf_def maxRequestsOf_def Let_def)
  show "handleRequest sampleOptions (jwtVerify sampleDecode 0)
     (sampleRequest ''GET'' ''/health'' None None) 100 100 exhausted
     = ((Responded \<lparr>status = 200, headers = securityHeaders @ corsHeaders None,
                    body = HealthyBody\<rparr>, []), exhausted)"
    using handleRequest_health
      [of "sampleRequest ''GET'' ''/health'' None None" sampleOptions
          "jwtVerify sampleDecode 0" 100 100 exhausted]
    by (simp add: sampleRequest_def isOriginAllowed_def orElse_def)
qed

end
